theory Spec2Isabelle
  imports Complex_Main "HOL-Library.AList" "HOL-Library.Product_Lexorder" "HOL-Library.Multiset"
begin

section \<open>Strings and errors\<close>

text \<open>
  A Python \<open>str\<close> is a sequence of Unicode code points, and \<open>len\<close> counts code points.
  The report texts are Chinese, and the entity matcher tests for CJK code points, so a
  string is modelled as the list of its code points. \<open>ascii\<close> turns an ASCII literal into
  such a list.
\<close>

type_synonym ustring = "nat list"

definition ascii :: "string \<Rightarrow> ustring" where
  "ascii s = map of_char s"

text \<open>
  The exceptions of the modelled code paths. \<open>KeyError k\<close> is the subscript \<open>d[k]\<close> on a
  dictionary without the key \<open>k\<close>; \<open>OverflowError\<close> is \<open>datetime - timedelta\<close> leaving the
  range of \<open>datetime\<close>. \<open>ConfigError\<close> is the error kind the design document names for a
  malformed catalog; no code path of the repository constructs it.
\<close>

datatype py_error = KeyError ustring | OverflowError | ConfigError

section \<open>Previous trading day (outputs/notion.py)\<close>

text \<open>
  A \<open>datetime\<close> at midnight is modelled by its proleptic Gregorian ordinal
  (\<open>date.toordinal()\<close>): \<open>datetime.min\<close> is ordinal 1, a Monday, and
  \<open>weekday()\<close> is \<open>(ordinal + 6) % 7\<close> with Monday 0 and Sunday 6.
  Subtracting a day below \<open>datetime.min\<close> raises \<open>OverflowError\<close>.
\<close>

definition weekday :: "int \<Rightarrow> int" where
  "weekday d = (d + 6) mod 7"

definition minus_one_day :: "int \<Rightarrow> py_error + int" where
  "minus_one_day d = (if d - 1 < 1 then Inl OverflowError else Inr (d - 1))"

text \<open>
  The \<open>while days_back < offset\<close> loop of \<open>get_previous_trading_day\<close>, with its two
  local variables as arguments.
\<close>

function prev_loop :: "int \<Rightarrow> nat \<Rightarrow> nat \<Rightarrow> py_error + int" where
  "prev_loop result days_back offset =
     (if days_back < offset then
        (case minus_one_day result of
           Inl e \<Rightarrow> Inl e
         | Inr r \<Rightarrow> prev_loop r (if weekday r < 5 then days_back + 1 else days_back) offset)
      else Inr result)"
  by pat_completeness auto
termination
  by (relation "measure (\<lambda>(result, days_back, offset). nat result)")
     (auto simp: minus_one_day_def split: if_splits)

declare prev_loop.simps [simp del]

definition get_previous_trading_day :: "int \<Rightarrow> nat \<Rightarrow> py_error + int" where
  "get_previous_trading_day date offset = prev_loop date 0 offset"

text \<open>The dictionary \<open>get_yesterday_pre_market\<close> returns; \<open>source\<close> is one of the
  strings \<open>"notion"\<close> (the report of the previous trading day itself, the primary
  source), \<open>"fallback"\<close> and \<open>"unavailable"\<close>.\<close>

datatype source = Notion | Fallback | Unavailable

record prev_ref =
  content :: ustring
  available :: bool
  source :: source
  fallback_note :: ustring
  date :: ustring

text \<open>Decimal digits of a non-negative integer, as \<open>str(n)\<close> prints them.\<close>

fun digits :: "nat \<Rightarrow> ustring" where
  "digits n = (if n < 10 then [48 + n] else digits (n div 10) @ [48 + n mod 10])"

declare digits.simps [simp del]

definition fallback_note_of :: "ustring \<Rightarrow> nat \<Rightarrow> ustring" where
  "fallback_note_of try_date_str lookback =
     [0x4f7f, 0x7528, 0x20] @ try_date_str @
     [0x20, 0x7684, 0x5831, 0x544a, 0x4f5c, 0x70ba, 0x53c3, 0x8003, 0xff08] @
     digits lookback @
     [0x20, 0x500b, 0x4ea4, 0x6613, 0x65e5, 0x524d, 0xff09]"

definition unavailable_note :: ustring where
  "unavailable_note =
     [0x6628, 0x65e5, 0x5831, 0x544a, 0x4e0d, 0x53ef, 0x7528, 0xff0c, 0x8b8a, 0x5316,
      0x5224, 0x65b7, 0x57fa, 0x65bc, 0x8f03, 0x9577, 0x6642, 0x9593, 0x6846, 0x67b6]"

definition unavailable_ref :: prev_ref where
  "unavailable_ref =
     \<lparr>content = [], available = False, source = Unavailable,
      fallback_note = unavailable_note, date = []\<rparr>"

text \<open>
  The \<open>for lookback in range(1, 4)\<close> loop. \<open>strftime\<close> is the rendering
  \<open>"%Y-%m-%d"\<close> of a date and \<open>get_pre_market_content\<close> the lookup in the content store,
  which returns the empty string when it finds nothing (it catches its own errors).
  The first component of the result is the list of dates for which the store was
  queried, in order; the second is the returned dictionary, or the exception raised.
\<close>

fun lookback_loop ::
  "(int \<Rightarrow> ustring) \<Rightarrow> (ustring \<Rightarrow> ustring) \<Rightarrow> int \<Rightarrow> nat list \<Rightarrow>
     int list \<times> (py_error + prev_ref)" where
  "lookback_loop strftime get_pre_market_content current_date [] = ([], Inr unavailable_ref)"
| "lookback_loop strftime get_pre_market_content current_date (lookback # rest) =
     (case get_previous_trading_day current_date lookback of
        Inl e \<Rightarrow> ([], Inl e)
      | Inr try_date \<Rightarrow>
          (let try_date_str = strftime try_date;
               content = get_pre_market_content try_date_str
           in if content \<noteq> [] then
                (if lookback = 1 then
                   ([try_date],
                    Inr \<lparr>content = content, available = True, source = Notion,
                         fallback_note = [], date = try_date_str\<rparr>)
                 else
                   ([try_date],
                    Inr \<lparr>content = content, available = True, source = Fallback,
                         fallback_note = fallback_note_of try_date_str lookback,
                         date = try_date_str\<rparr>))
              else
                (case lookback_loop strftime get_pre_market_content current_date rest of
                   (tried, r) \<Rightarrow> (try_date # tried, r))))"

definition get_yesterday_pre_market ::
  "(int \<Rightarrow> ustring) \<Rightarrow> (ustring \<Rightarrow> ustring) \<Rightarrow> int \<Rightarrow> int list \<times> (py_error + prev_ref)" where
  "get_yesterday_pre_market strftime get_pre_market_content current_date =
     lookback_loop strftime get_pre_market_content current_date [1, 2, 3]"

text \<open>
  The date \<open>get_previous_trading_day date 1\<close> is meant to compute, in closed form: the
  day before, or the Friday before a Sunday or a Monday. It is used to state what the
  loop returns.
\<close>

definition prior_business_day :: "int \<Rightarrow> int" where
  "prior_business_day d = d - (if weekday d = 0 then 3 else if weekday d = 6 then 2 else 1)"


text \<open>A rendering of dates and a content store holding one report, for concrete instances.\<close>

definition demo_strftime :: "int \<Rightarrow> ustring" where
  "demo_strftime d = digits (nat d)"


section \<open>Text primitives of Python used by the modelled code\<close>

text \<open>
  \<open>str.lower\<close>, \<open>str.upper\<close>, the alphanumeric code points (the regular-expression class
  \<open>\w\<close> is these and the underscore) and the character equivalence of \<open>re.IGNORECASE\<close>
  are tables of the Unicode database, which is not part of the repository. They are
  parameters of the model: every theorem below holds for every choice of them.
\<close>

record unicode_tables =
  str_lower :: "ustring \<Rightarrow> ustring"
  str_upper :: "ustring \<Rightarrow> ustring"
  is_alnum :: "nat \<Rightarrow> bool"
  ignorecase_eq :: "nat \<Rightarrow> nat \<Rightarrow> bool"

text \<open>The tables restricted to ASCII: they agree with Python on ASCII text.\<close>

definition ascii_lower :: "nat \<Rightarrow> nat" where
  "ascii_lower c = (if 65 \<le> c \<and> c \<le> 90 then c + 32 else c)"

definition ascii_upper :: "nat \<Rightarrow> nat" where
  "ascii_upper c = (if 97 \<le> c \<and> c \<le> 122 then c - 32 else c)"

definition ascii_alnum :: "nat \<Rightarrow> bool" where
  "ascii_alnum c = ((48 \<le> c \<and> c \<le> 57) \<or> (65 \<le> c \<and> c \<le> 90) \<or> (97 \<le> c \<and> c \<le> 122))"

definition ascii_tables :: unicode_tables where
  "ascii_tables =
     \<lparr>str_lower = map ascii_lower, str_upper = map ascii_upper, is_alnum = ascii_alnum,
      ignorecase_eq = (\<lambda>p c. ascii_lower p = ascii_lower c)\<rparr>"

text \<open>The regular-expression class \<open>\w\<close> and the anchor \<open>\b\<close> at position \<open>i\<close> of a text.\<close>

definition is_word :: "unicode_tables \<Rightarrow> nat \<Rightarrow> bool" where
  "is_word U c = (is_alnum U c \<or> c = 95)"

definition word_boundary :: "unicode_tables \<Rightarrow> ustring \<Rightarrow> nat \<Rightarrow> bool" where
  "word_boundary U text i =
     ((0 < i \<and> i \<le> length text \<and> is_word U (text ! (i - 1))) \<noteq>
      (i < length text \<and> is_word U (text ! i)))"

text \<open>
  \<open>str.isspace\<close> of one code point; \<open>str.strip\<close> and the class \<open>\s\<close> of a \<open>str\<close>
  pattern use the same set.
\<close>

definition py_isspace :: "nat \<Rightarrow> bool" where
  "py_isspace c =
     ((9 \<le> c \<and> c \<le> 13) \<or> (28 \<le> c \<and> c \<le> 32) \<or> c = 0x85 \<or> c = 0xa0 \<or> c = 0x1680 \<or>
      (0x2000 \<le> c \<and> c \<le> 0x200a) \<or> c = 0x2028 \<or> c = 0x2029 \<or> c = 0x202f \<or> c = 0x205f \<or>
      c = 0x3000)"

definition strip :: "ustring \<Rightarrow> ustring" where
  "strip s = rev (dropWhile py_isspace (rev (dropWhile py_isspace s)))"

text \<open>\<open>p\<close> occurs in \<open>s\<close> at position 0; \<open>sub in s\<close>.\<close>

definition starts_with :: "'a list \<Rightarrow> 'a list \<Rightarrow> bool" where
  "starts_with p s = (take (length p) s = p)"

fun contains :: "'a list \<Rightarrow> 'a list \<Rightarrow> bool" where
  "contains sub [] = (sub = [])"
| "contains sub (x # xs) = (starts_with sub (x # xs) \<or> contains sub xs)"

text \<open>
  \<open>list.sort(key=..., reverse=True)\<close>: descending by key, elements with equal keys in
  their original order.
\<close>

definition sort_reverse :: "('a \<Rightarrow> 'k::linorder) \<Rightarrow> 'a list \<Rightarrow> 'a list" where
  "sort_reverse key xs = rev (sort_key key (rev xs))"

text \<open>
  Numbers. A Python \<open>float\<close> is modelled by the rational number it denotes (NaN and the
  infinities have no model), and the arithmetic of \<open>_near_level\<close> is exact. \<open>round\<close> and
  the format specifications \<open>.0f\<close>, \<open>.2f\<close>, \<open>+.2f\<close> round the exact value to the nearest
  decimal, ties to even.
\<close>

definition round_half_even :: "rat \<Rightarrow> int" where
  "round_half_even x =
     (let f = \<lfloor>x\<rfloor>; r = x - of_int f
      in if r < 1 / 2 then f else if 1 / 2 < r then f + 1 else if even f then f else f + 1)"

definition py_round :: "rat \<Rightarrow> nat \<Rightarrow> rat" where
  "py_round x ndigits = of_int (round_half_even (x * 10 ^ ndigits)) / 10 ^ ndigits"

definition zero_pad :: "nat \<Rightarrow> ustring \<Rightarrow> ustring" where
  "zero_pad width s = replicate (width - length s) 48 @ s"

definition format_f :: "bool \<Rightarrow> nat \<Rightarrow> rat \<Rightarrow> ustring" where
  "format_f force_sign prec x =
     (let n = nat (round_half_even (\<bar>x\<bar> * 10 ^ prec));
          sign = (if x < 0 then [45] else if force_sign then [43] else [])
      in sign @ digits (n div 10 ^ prec) @
         (if prec = 0 then [] else [46] @ zero_pad prec (digits (n mod 10 ^ prec))))"

section \<open>Candidate ranking (analyzers/pre\_market\_v3.py)\<close>

text \<open>
  \<open>StockData\<close> (collectors/stocks.py), with the fields the ranking reads. An
  \<open>Optional[float]\<close> is an \<open>option\<close>; an entry of a level list is \<open>None\<close> when
  \<open>float(level)\<close> raises.
\<close>

record stock =
  symbol :: ustring
  name :: ustring
  current_price :: rat
  change_percent :: rat
  volume_ratio :: rat
  support_levels :: "rat option list"
  resistance_levels :: "rat option list"
  sma_20 :: "rat option"
  sma_50 :: "rat option"
  sma_200 :: "rat option"
  rsi_14 :: "rat option"
  change_1w :: "rat option"
  change_1m :: "rat option"

text \<open>The truth value of an \<open>Optional[float]\<close>: neither \<open>None\<close> nor zero.\<close>

definition truthy :: "rat option \<Rightarrow> bool" where
  "truthy v = (case v of None \<Rightarrow> False | Some x \<Rightarrow> x \<noteq> 0)"

definition trend :: "stock \<Rightarrow> ustring" where
  "trend s =
     (if truthy (sma_20 s) \<and> truthy (sma_50 s) \<and> truthy (sma_200 s) then
        (let p = current_price s; a = the (sma_20 s); b = the (sma_50 s); c = the (sma_200 s)
         in if p > a \<and> a > b \<and> b > c then ascii ''Strong Uptrend''
            else if p > b \<and> b > c then ascii ''Uptrend''
            else if p < a \<and> a < b \<and> b < c then ascii ''Strong Downtrend''
            else if p < b \<and> b < c then ascii ''Downtrend''
            else ascii ''Neutral'')
      else ascii ''Neutral'')"

record news_item =
  title :: ustring
  summary :: ustring
  related_tickers :: "ustring list"

record universe_data =
  tickers :: "ustring list"
  ticker_to_name :: "(ustring \<times> ustring) list"
  name_to_ticker :: "(ustring \<times> ustring) list"

text \<open>\<open>_near_level\<close>, with \<open>threshold = 0.02\<close>.\<close>

fun near_level_loop :: "rat \<Rightarrow> rat option list \<Rightarrow> bool" where
  "near_level_loop price [] = False"
| "near_level_loop price (None # levels) = near_level_loop price levels"
| "near_level_loop price (Some lvl # levels) =
     (if lvl \<noteq> 0 \<and> \<bar>price - lvl\<bar> / lvl \<le> 2 / 100 then True
      else near_level_loop price levels)"

definition near_level :: "rat \<Rightarrow> rat option list \<Rightarrow> bool" where
  "near_level price levels =
     (if price = 0 \<or> levels = [] then False else near_level_loop price levels)"

text \<open>The reason strings.\<close>

definition reason_earnings :: ustring where
  "reason_earnings = [0x4eca, 0x65e5, 0x8ca1, 0x5831]"

definition reason_news :: ustring where
  "reason_news = [0x4eca, 0x65e5, 0x65b0, 0x805e, 0x63d0, 0x53ca]"

definition reason_daily :: "rat \<Rightarrow> ustring" where
  "reason_daily x = [0x55ae, 0x65e5, 0x6ce2, 0x52d5, 0x20] @ format_f True 2 x @ [37]"

definition reason_week :: "rat \<Rightarrow> ustring" where
  "reason_week x = [0x8fd1, 0x4e00, 0x9031, 0x20] @ format_f True 2 x @ [37]"

definition reason_overbought :: "rat \<Rightarrow> ustring" where
  "reason_overbought x = ascii ''RSI '' @ format_f False 0 x @ [0x20, 0x8d85, 0x8cb7]"

definition reason_oversold :: "rat \<Rightarrow> ustring" where
  "reason_oversold x = ascii ''RSI '' @ format_f False 0 x @ [0x20, 0x8d85, 0x8ce3]"

definition reason_volume :: "rat \<Rightarrow> ustring" where
  "reason_volume x =
     [0x6210, 0x4ea4, 0x91cf, 0x653e, 0x5927, 0x20] @ format_f False 2 x @ [120]"

definition reason_support :: ustring where
  "reason_support = [0x63a5, 0x8fd1, 0x652f, 0x6490, 0x4f4d]"

definition reason_resistance :: ustring where
  "reason_resistance = [0x63a5, 0x8fd1, 0x58d3, 0x529b, 0x4f4d]"

text \<open>
  The body of the loop over the stocks in \<open>_build_watchlist_candidates\<close>, up to the test
  \<open>if not reasons\<close>: the local variables \<open>reasons\<close> and \<open>score\<close> after the eight
  \<open>if\<close> statements. \<open>hit\<close> is \<open>reasons.append(r); score += w\<close>.
\<close>

definition hit :: "ustring \<Rightarrow> int \<Rightarrow> ustring list \<times> int \<Rightarrow> ustring list \<times> int" where
  "hit r w acc = (fst acc @ [r], snd acc + w)"

definition score_stock :: "ustring list \<Rightarrow> ustring list \<Rightarrow> stock \<Rightarrow> ustring list \<times> int" where
  "score_stock earnings_symbols news_symbols s =
     (let acc = ([], 0);
          acc = (if symbol s \<in> set earnings_symbols then hit reason_earnings 3 acc else acc);
          acc = (if symbol s \<in> set news_symbols then hit reason_news 2 acc else acc);
          acc = (if \<bar>change_percent s\<bar> \<ge> 2 then hit (reason_daily (change_percent s)) 1 acc
                 else acc);
          acc = (if truthy (change_1w s) \<and> \<bar>the (change_1w s)\<bar> \<ge> 5
                 then hit (reason_week (the (change_1w s))) 1 acc else acc);
          acc = (if truthy (rsi_14 s) then
                   (if the (rsi_14 s) \<ge> 70 then hit (reason_overbought (the (rsi_14 s))) 1 acc
                    else if the (rsi_14 s) \<le> 30
                    then hit (reason_oversold (the (rsi_14 s))) 1 acc
                    else acc)
                 else acc);
          acc = (if volume_ratio s \<noteq> 0 \<and> volume_ratio s \<ge> 3 / 2
                 then hit (reason_volume (volume_ratio s)) 1 acc else acc);
          acc = (if support_levels s \<noteq> [] then
                   (if near_level (current_price s) (support_levels s)
                    then hit reason_support 1 acc else acc)
                 else acc);
          acc = (if resistance_levels s \<noteq> [] then
                   (if near_level (current_price s) (resistance_levels s)
                    then hit reason_resistance 1 acc else acc)
                 else acc)
      in acc)"

text \<open>The dictionary appended to \<open>candidates\<close>; an empty string stands for a missing
  number and is \<open>None\<close> here.\<close>

record candidate =
  c_symbol :: ustring
  c_name :: ustring
  c_price :: rat
  c_change_percent :: rat
  c_change_1w :: "rat option"
  c_change_1m :: "rat option"
  c_rsi :: "rat option"
  c_trend :: ustring
  c_reasons :: "ustring list"
  c_score :: int

definition round_opt :: "rat option \<Rightarrow> nat \<Rightarrow> rat option" where
  "round_opt v ndigits = (if truthy v then Some (py_round (the v) ndigits) else None)"

definition make_candidate :: "stock \<Rightarrow> ustring list \<Rightarrow> int \<Rightarrow> candidate" where
  "make_candidate s reasons score =
     \<lparr>c_symbol = symbol s, c_name = name s, c_price = py_round (current_price s) 2,
      c_change_percent = py_round (change_percent s) 2,
      c_change_1w = round_opt (change_1w s) 2, c_change_1m = round_opt (change_1m s) 2,
      c_rsi = round_opt (rsi_14 s) 0, c_trend = trend s, c_reasons = reasons,
      c_score = score\<rparr>"

fun candidates_loop :: "ustring list \<Rightarrow> ustring list \<Rightarrow> stock list \<Rightarrow> candidate list" where
  "candidates_loop earnings_symbols news_symbols [] = []"
| "candidates_loop earnings_symbols news_symbols (s # stocks) =
     (case score_stock earnings_symbols news_symbols s of
        (reasons, score) \<Rightarrow>
          if reasons = [] then candidates_loop earnings_symbols news_symbols stocks
          else make_candidate s reasons score #
               candidates_loop earnings_symbols news_symbols stocks)"

text \<open>
  \<open>_build_watchlist_candidates\<close>. An earnings event is represented by its symbol. The
  second component is the set \<open>symbols\<close>.
\<close>

definition build_watchlist_candidates ::
  "stock list \<Rightarrow> news_item list \<Rightarrow> ustring list \<Rightarrow> candidate list \<times> ustring set" where
  "build_watchlist_candidates stocks news_items earnings_events =
     (let earnings_symbols = earnings_events;
          news_symbols = concat (map related_tickers news_items);
          candidates = candidates_loop earnings_symbols news_symbols stocks;
          candidates = sort_reverse (\<lambda>x. (c_score x, \<bar>c_change_percent x\<bar>)) candidates
      in (candidates, set (map c_symbol candidates)))"

text \<open>
  \<open>_extract_ticker_tokens\<close>: \<open>re.findall(r"\b[A-Z]{1,5}\b", text)\<close>, keeping the
  tokens of the universe. At a position, after \<open>\b\<close>, the quantifier takes the longest
  run of at most five capitals and gives capitals back until \<open>\b\<close> holds behind it.
  A Python set is modelled by the list of its elements without repetitions; Python
  leaves the iteration order of a set open, the model iterates in insertion order.
\<close>

definition is_capital :: "nat \<Rightarrow> bool" where
  "is_capital c = (65 \<le> c \<and> c \<le> 90)"

fun longest_fit :: "(nat \<Rightarrow> bool) \<Rightarrow> nat \<Rightarrow> nat option" where
  "longest_fit P 0 = None"
| "longest_fit P (Suc k) = (if P (Suc k) then Some (Suc k) else longest_fit P k)"

definition ticker_token_at :: "unicode_tables \<Rightarrow> ustring \<Rightarrow> nat \<Rightarrow> nat option" where
  "ticker_token_at U text i =
     (if word_boundary U text i then
        longest_fit (\<lambda>k. word_boundary U text (i + k))
          (length (takeWhile is_capital (take 5 (drop i text))))
      else None)"

lemma longest_fit_pos: "longest_fit P n = Some k \<Longrightarrow> 0 < k"
  by (induction n) (auto split: if_splits)

lemma ticker_token_at_pos: "ticker_token_at U text i = Some k \<Longrightarrow> 0 < k"
  by (auto simp: ticker_token_at_def split: if_splits dest: longest_fit_pos)

function findall_ticker_tokens :: "unicode_tables \<Rightarrow> ustring \<Rightarrow> nat \<Rightarrow> ustring list" where
  "findall_ticker_tokens U text i =
     (if length text \<le> i then []
      else (case ticker_token_at U text i of
              Some k \<Rightarrow> take k (drop i text) # findall_ticker_tokens U text (i + k)
            | None \<Rightarrow> findall_ticker_tokens U text (i + 1)))"
  by pat_completeness auto
termination
  by (relation "measure (\<lambda>(U, text, i). length text - i)")
     (auto dest: ticker_token_at_pos)

declare findall_ticker_tokens.simps [simp del]

definition set_add :: "'a \<Rightarrow> 'a list \<Rightarrow> 'a list" where
  "set_add x xs = (if x \<in> set xs then xs else xs @ [x])"

definition extract_ticker_tokens :: "unicode_tables \<Rightarrow> ustring \<Rightarrow> ustring list \<Rightarrow> ustring list" where
  "extract_ticker_tokens U text universe =
     (if text = [] then []
      else foldl (\<lambda>found token. if token \<in> set universe then set_add token found else found)
             [] (findall_ticker_tokens U text 0))"

text \<open>\<open>_normalize_text\<close>: lower case, every code point outside \<open>[a-z0-9\s]\<close> replaced
  by a space, every run of white space by one space, and the result stripped.\<close>

function collapse_spaces :: "ustring \<Rightarrow> ustring" where
  "collapse_spaces [] = []"
| "collapse_spaces (c # cs) =
     (if py_isspace c then 32 # collapse_spaces (dropWhile py_isspace cs)
      else c # collapse_spaces cs)"
  by pat_completeness auto
termination
  by (relation "measure length") (auto simp: length_dropWhile_le less_Suc_eq_le)

definition normalize_text :: "unicode_tables \<Rightarrow> ustring \<Rightarrow> ustring" where
  "normalize_text U text =
     (let text = str_lower U text;
          text = map (\<lambda>c. if (97 \<le> c \<and> c \<le> 122) \<or> (48 \<le> c \<and> c \<le> 57) \<or> py_isspace c
                          then c else 32) text
      in strip (collapse_spaces text))"

text \<open>An entry of the dictionary \<open>candidates\<close> of \<open>_build_event_driven_candidates\<close>; the
  dictionary is an association list in insertion order.\<close>

record event_entry =
  e_symbol :: ustring
  e_name :: ustring
  e_headlines :: "ustring list"
  e_count :: int

definition count_mention ::
  "universe_data \<Rightarrow> ustring \<Rightarrow> ustring \<Rightarrow> (ustring \<times> event_entry) list \<Rightarrow>
     (ustring \<times> event_entry) list" where
  "count_mention u item_title ticker candidates =
     (let entry = (case map_of candidates ticker of
                     Some e \<Rightarrow> e
                   | None \<Rightarrow>
                       \<lparr>e_symbol = ticker,
                        e_name = (case map_of (ticker_to_name u) ticker of
                                    Some n \<Rightarrow> n | None \<Rightarrow> []),
                        e_headlines = [], e_count = 0\<rparr>);
          entry = entry\<lparr>e_count := e_count entry + 1\<rparr>;
          entry = (if length (e_headlines entry) < 3
                   then entry\<lparr>e_headlines := e_headlines entry @ [item_title]\<rparr> else entry)
      in AList.update ticker entry candidates)"

fun matched_loop ::
  "universe_data \<Rightarrow> ustring set \<Rightarrow> ustring \<Rightarrow> ustring list \<Rightarrow> (ustring \<times> event_entry) list \<Rightarrow>
     (ustring \<times> event_entry) list" where
  "matched_loop u watchlist_symbols item_title [] candidates = candidates"
| "matched_loop u watchlist_symbols item_title (ticker # matched) candidates =
     (if ticker \<in> watchlist_symbols
      then matched_loop u watchlist_symbols item_title matched candidates
      else if ticker \<notin> set (tickers u)
      then matched_loop u watchlist_symbols item_title matched candidates
      else matched_loop u watchlist_symbols item_title matched
             (count_mention u item_title ticker candidates))"

definition matched_tickers :: "unicode_tables \<Rightarrow> universe_data \<Rightarrow> news_item \<Rightarrow> ustring list" where
  "matched_tickers U u item =
     (let text = str_lower U (title item @ [32] @ summary item);
          matched = extract_ticker_tokens U (title item) (tickers u);
          normalized_text = normalize_text U text
      in foldl (\<lambda>matched (nm, ticker).
                  if nm \<noteq> [] \<and> contains nm normalized_text then set_add ticker matched
                  else matched)
           matched (name_to_ticker u))"

fun items_loop ::
  "unicode_tables \<Rightarrow> universe_data \<Rightarrow> ustring set \<Rightarrow> news_item list \<Rightarrow>
     (ustring \<times> event_entry) list \<Rightarrow> (ustring \<times> event_entry) list" where
  "items_loop U u watchlist_symbols [] candidates = candidates"
| "items_loop U u watchlist_symbols (item # news_items) candidates =
     items_loop U u watchlist_symbols news_items
       (matched_loop u watchlist_symbols (title item) (matched_tickers U u item) candidates)"

definition build_event_driven_candidates ::
  "unicode_tables \<Rightarrow> news_item list \<Rightarrow> universe_data option \<Rightarrow> ustring set \<Rightarrow>
     event_entry list \<times> ustring list" where
  "build_event_driven_candidates U news_items universe watchlist_symbols =
     (case universe of
        None \<Rightarrow> ([], [])
      | Some u \<Rightarrow>
          if tickers u = [] then ([], [])
          else (let candidates = items_loop U u watchlist_symbols news_items [];
                    items = map snd candidates;
                    items = sort_reverse e_count items
                in (items, map e_symbol items)))"

text \<open>
  One ranking call: the first two statements of \<open>generate_sections\<close>, which hand the
  symbol set of the watchlist candidates to the event-driven search.
\<close>

definition ranking_call ::
  "unicode_tables \<Rightarrow> stock list \<Rightarrow> news_item list \<Rightarrow> ustring list \<Rightarrow> universe_data option \<Rightarrow>
     candidate list \<times> event_entry list" where
  "ranking_call U watchlist_stocks news_items earnings_events universe =
     (case build_watchlist_candidates watchlist_stocks news_items earnings_events of
        (watchlist_candidates, watchlist_symbols) \<Rightarrow>
          (case build_event_driven_candidates U news_items universe watchlist_symbols of
             (event_candidates, event_symbols) \<Rightarrow> (watchlist_candidates, event_candidates)))"












text \<open>The invariant of the dictionary \<open>candidates\<close>: every entry is stored under its own
  symbol, and no key is a watchlist symbol.\<close>

definition entries_ok :: "ustring set \<Rightarrow> (ustring \<times> event_entry) list \<Rightarrow> bool" where
  "entries_ok ws c = (\<forall>(k, e) \<in> set c. e_symbol e = k \<and> k \<notin> ws)"


section \<open>Entity matcher (collectors/entity\_matcher.py)\<close>

text \<open>
  The catalog \<open>entities.yaml\<close> as \<open>yaml.safe_load\<close> returns it. An entry (a company, a
  person, an institution) is a mapping that may lack any of its keys; \<open>e["name"]\<close>
  raises \<open>KeyError\<close> on an entry without a name, \<open>e.get(key, default)\<close> does not raise.
  A dictionary is an association list in insertion order: assigning to an existing key
  keeps the key's position (\<open>AList.update\<close>).
\<close>

record entry =
  y_name :: "ustring option"
  y_ticker :: "ustring option"
  y_aliases :: "ustring list option"
  y_entities :: "ustring list option"

record categories =
  listed :: "entry list"
  unlisted :: "entry list"

record catalog =
  entities :: "(ustring \<times> categories) list"
  key_people :: "entry list"
  institutions :: "entry list"

datatype entity_info =
  CompanyInfo ustring "ustring option" bool
| PersonInfo "ustring list"
| InstitutionInfo

text \<open>
  One alternative of the compiled entity pattern: the alias it matches literally
  (\<open>re.escape\<close>) and whether it stands between two \<open>\b\<close> anchors.
\<close>

record alternative =
  literal :: ustring
  anchored :: bool

record matcher =
  ticker_to_info :: "(ustring \<times> ustring \<times> ustring) list"
  entity_to_info :: "(ustring \<times> entity_info) list"
  alias_to_entity :: "(ustring \<times> ustring) list"
  alias_to_ticker :: "(ustring \<times> ustring) list"
  industries :: "ustring list"
  entity_pattern :: "alternative list option"
  ticker_pattern :: "ustring list option"

definition empty_matcher :: matcher where
  "empty_matcher =
     \<lparr>ticker_to_info = [], entity_to_info = [], alias_to_entity = [], alias_to_ticker = [],
      industries = [], entity_pattern = None, ticker_pattern = None\<rparr>"

definition get_name :: "entry \<Rightarrow> py_error + ustring" where
  "get_name e = (case y_name e of None \<Rightarrow> Inl (KeyError (ascii ''name'')) | Some n \<Rightarrow> Inr n)"

definition get_or :: "'a option \<Rightarrow> 'a \<Rightarrow> 'a" where
  "get_or v dflt = (case v of None \<Rightarrow> dflt | Some x \<Rightarrow> x)"

text \<open>A \<open>for\<close> loop whose body may raise: the first exception ends it.\<close>

fun for_each :: "('a \<Rightarrow> 's \<Rightarrow> py_error + 's) \<Rightarrow> 'a list \<Rightarrow> 's \<Rightarrow> py_error + 's" where
  "for_each body [] s = Inr s"
| "for_each body (x # xs) s =
     (case body x s of Inl e \<Rightarrow> Inl e | Inr s' \<Rightarrow> for_each body xs s')"

definition index_alias :: "unicode_tables \<Rightarrow> ustring \<Rightarrow> matcher \<Rightarrow> ustring \<Rightarrow> matcher" where
  "index_alias U entity_name m alias =
     m\<lparr>alias_to_entity := AList.update (str_lower U alias) entity_name (alias_to_entity m)\<rparr>"

definition add_listed :: "unicode_tables \<Rightarrow> ustring \<Rightarrow> entry \<Rightarrow> matcher \<Rightarrow> py_error + matcher" where
  "add_listed U industry company m =
     (case get_name company of
        Inl e \<Rightarrow> Inl e
      | Inr entity_name \<Rightarrow>
          (let ticker = get_or (y_ticker company) [];
               aliases = get_or (y_aliases company) [];
               m = (if ticker \<noteq> [] then
                      m\<lparr>ticker_to_info := AList.update ticker (entity_name, industry) (ticker_to_info m),
                        alias_to_ticker :=
                          AList.update (str_lower U ticker) ticker
                            (AList.update (str_lower U entity_name) ticker (alias_to_ticker m))\<rparr>
                    else m);
               m = m\<lparr>entity_to_info :=
                        AList.update entity_name (CompanyInfo industry (Some ticker) True)
                          (entity_to_info m)\<rparr>;
               m = foldl (\<lambda>m alias.
                            (let m = index_alias U entity_name m alias
                             in if ticker \<noteq> [] then
                                  m\<lparr>alias_to_ticker :=
                                      AList.update (str_lower U alias) ticker (alias_to_ticker m)\<rparr>
                                else m))
                     m aliases
           in Inr m))"

definition add_unlisted :: "unicode_tables \<Rightarrow> ustring \<Rightarrow> entry \<Rightarrow> matcher \<Rightarrow> py_error + matcher" where
  "add_unlisted U industry company m =
     (case get_name company of
        Inl e \<Rightarrow> Inl e
      | Inr entity_name \<Rightarrow>
          (let aliases = get_or (y_aliases company) [];
               m = m\<lparr>entity_to_info :=
                        AList.update entity_name (CompanyInfo industry None False) (entity_to_info m)\<rparr>;
               m = index_alias U entity_name m entity_name;
               m = foldl (index_alias U entity_name) m aliases
           in Inr m))"

definition add_industry ::
  "unicode_tables \<Rightarrow> ustring \<times> categories \<Rightarrow> matcher \<Rightarrow> py_error + matcher" where
  "add_industry U item m =
     (case item of
        (industry, cats) \<Rightarrow>
          (let m = m\<lparr>industries := set_add industry (industries m)\<rparr>
           in case for_each (add_listed U industry) (listed cats) m of
                Inl e \<Rightarrow> Inl e
              | Inr m \<Rightarrow> for_each (add_unlisted U industry) (unlisted cats) m))"

definition add_person :: "unicode_tables \<Rightarrow> entry \<Rightarrow> matcher \<Rightarrow> py_error + matcher" where
  "add_person U person m =
     (case get_name person of
        Inl e \<Rightarrow> Inl e
      | Inr entity_name \<Rightarrow>
          (let related = get_or (y_entities person) [];
               aliases = get_or (y_aliases person) [];
               m = index_alias U entity_name m entity_name;
               m = foldl (index_alias U entity_name) m aliases;
               m = m\<lparr>entity_to_info :=
                        AList.update entity_name (PersonInfo related) (entity_to_info m)\<rparr>
           in Inr m))"

definition add_institution :: "unicode_tables \<Rightarrow> entry \<Rightarrow> matcher \<Rightarrow> py_error + matcher" where
  "add_institution U inst m =
     (case get_name inst of
        Inl e \<Rightarrow> Inl e
      | Inr entity_name \<Rightarrow>
          (let aliases = get_or (y_aliases inst) [];
               m = m\<lparr>entity_to_info := AList.update entity_name InstitutionInfo (entity_to_info m)\<rparr>;
               m = index_alias U entity_name m entity_name;
               m = foldl (index_alias U entity_name) m aliases
           in Inr m))"

text \<open>\<open>_build_patterns\<close>. An alias with a code point between U+4E00 and
  U+9FFF gets no anchors.\<close>

definition has_cjk :: "ustring \<Rightarrow> bool" where
  "has_cjk a = list_ex (\<lambda>c. 0x4e00 \<le> c \<and> c \<le> 0x9fff) a"

definition build_patterns :: "matcher \<Rightarrow> matcher" where
  "build_patterns m =
     (let all_aliases = sort_reverse length (map fst (alias_to_entity m));
          escaped = filter (\<lambda>alias. length alias \<ge> 2) all_aliases;
          patterns = map (\<lambda>alias. \<lparr>literal = alias, anchored = \<not> has_cjk alias\<rparr>) escaped;
          ticker_list = sort_reverse length (map fst (ticker_to_info m))
      in m\<lparr>entity_pattern := (if patterns \<noteq> [] then Some patterns else None),
           ticker_pattern := (if ticker_list \<noteq> [] then Some ticker_list else None)\<rparr>)"

text \<open>\<open>_load_entities\<close>, from the loaded YAML data on.\<close>

definition load_entities :: "unicode_tables \<Rightarrow> catalog \<Rightarrow> py_error + matcher" where
  "load_entities U data =
     (case for_each (add_industry U) (entities data) empty_matcher of
        Inl e \<Rightarrow> Inl e
      | Inr m \<Rightarrow>
          (case for_each (add_person U) (key_people data) m of
             Inl e \<Rightarrow> Inl e
           | Inr m \<Rightarrow>
               (case for_each (add_institution U) (institutions data) m of
                  Inl e \<Rightarrow> Inl e
                | Inr m \<Rightarrow> Inr (build_patterns m))))"

text \<open>
  Matching. Under \<open>re.IGNORECASE\<close> a literal matches a slice of the text of its own
  length, code point by code point. The alternatives of a pattern are tried in order
  at a position, and \<open>finditer\<close> goes through the text from the left, continuing behind
  each match. (No alternative of a compiled pattern is empty; an empty match would
  advance by one code point.)
\<close>

definition literal_at :: "unicode_tables \<Rightarrow> ustring \<Rightarrow> ustring \<Rightarrow> nat \<Rightarrow> bool" where
  "literal_at U lit text i =
     (i + length lit \<le> length text \<and>
      list_all2 (ignorecase_eq U) lit (take (length lit) (drop i text)))"

definition alternative_at :: "unicode_tables \<Rightarrow> ustring \<Rightarrow> nat \<Rightarrow> alternative \<Rightarrow> bool" where
  "alternative_at U text i alt =
     (if anchored alt then
        word_boundary U text i \<and> literal_at U (literal alt) text i \<and>
        word_boundary U text (i + length (literal alt))
      else literal_at U (literal alt) text i)"

function entity_finditer ::
  "unicode_tables \<Rightarrow> alternative list \<Rightarrow> ustring \<Rightarrow> nat \<Rightarrow> ustring list" where
  "entity_finditer U alts text i =
     (if length text \<le> i then []
      else (case find (alternative_at U text i) alts of
              None \<Rightarrow> entity_finditer U alts text (i + 1)
            | Some alt \<Rightarrow>
                take (length (literal alt)) (drop i text) #
                entity_finditer U alts text (i + max 1 (length (literal alt)))))"
  by pat_completeness auto
termination
  by (relation "measure (\<lambda>(U, alts, text, i). length text - i)") auto

declare entity_finditer.simps [simp del]

text \<open>
  The ticker pattern
  \<open>(?:^|[\s\$\(\|])(T1|...|Tn)(?:[\s\)\|\:\,\.]|$)\<close>: the ways to match it at a
  position, in the order the matcher tries them, each with the start of the group and
  the end of the match.
\<close>

definition ticker_lead :: "nat \<Rightarrow> bool" where
  "ticker_lead c = (py_isspace c \<or> c = 36 \<or> c = 40 \<or> c = 124)"

definition ticker_trail :: "nat \<Rightarrow> bool" where
  "ticker_trail c = (py_isspace c \<or> c = 41 \<or> c = 124 \<or> c = 58 \<or> c = 44 \<or> c = 46)"

definition at_end :: "ustring \<Rightarrow> nat \<Rightarrow> bool" where
  "at_end text j = (j = length text \<or> (j + 1 = length text \<and> text ! j = 10))"

definition ticker_from :: "unicode_tables \<Rightarrow> ustring \<Rightarrow> nat \<Rightarrow> ustring \<Rightarrow> (ustring \<times> nat) option" where
  "ticker_from U text j t =
     (if literal_at U t text j then
        (let k = j + length t
         in if k < length text \<and> ticker_trail (text ! k)
            then Some (take (length t) (drop j text), k + 1)
            else if at_end text k then Some (take (length t) (drop j text), k)
            else None)
      else None)"

fun first_some :: "('a \<Rightarrow> 'b option) \<Rightarrow> 'a list \<Rightarrow> 'b option" where
  "first_some f [] = None"
| "first_some f (x # xs) = (case f x of Some y \<Rightarrow> Some y | None \<Rightarrow> first_some f xs)"

definition ticker_match_at ::
  "unicode_tables \<Rightarrow> ustring list \<Rightarrow> ustring \<Rightarrow> nat \<Rightarrow> (ustring \<times> nat) option" where
  "ticker_match_at U ts text i =
     (case (if i = 0 then first_some (ticker_from U text i) ts else None) of
        Some r \<Rightarrow> Some r
      | None \<Rightarrow>
          if i < length text \<and> ticker_lead (text ! i)
          then first_some (ticker_from U text (i + 1)) ts
          else None)"

function ticker_finditer ::
  "unicode_tables \<Rightarrow> ustring list \<Rightarrow> ustring \<Rightarrow> nat \<Rightarrow> ustring list" where
  "ticker_finditer U ts text i =
     (if length text \<le> i then []
      else (case ticker_match_at U ts text i of
              None \<Rightarrow> ticker_finditer U ts text (i + 1)
            | Some (group1, e) \<Rightarrow> group1 # ticker_finditer U ts text (max (i + 1) e)))"
  by pat_completeness auto
termination
  by (relation "measure (\<lambda>(U, ts, text, i). length text - i)") auto

declare ticker_finditer.simps [simp del]

text \<open>
  \<open>find_matches\<close>. The three sets are built in the order of the matches and returned
  as lists (Python leaves the order of \<open>list(set)\<close> open).
\<close>

definition ticker_hit ::
  "unicode_tables \<Rightarrow> matcher \<Rightarrow> ustring list \<times> ustring list \<times> ustring list \<Rightarrow> ustring \<Rightarrow>
     ustring list \<times> ustring list \<times> ustring list" where
  "ticker_hit U m acc group1 =
     (case acc of
        (tks, ents, inds) \<Rightarrow>
          (let ticker = str_upper U group1
           in case map_of (ticker_to_info m) ticker of
                None \<Rightarrow> acc
              | Some (entity_name, industry) \<Rightarrow>
                  (set_add ticker tks, set_add entity_name ents, set_add industry inds)))"

definition entity_hit ::
  "unicode_tables \<Rightarrow> matcher \<Rightarrow> ustring list \<times> ustring list \<times> ustring list \<Rightarrow> ustring \<Rightarrow>
     ustring list \<times> ustring list \<times> ustring list" where
  "entity_hit U m acc group0 =
     (case acc of
        (tks, ents, inds) \<Rightarrow>
          (let matched_text = str_lower U group0
           in case map_of (alias_to_entity m) matched_text of
                None \<Rightarrow> acc
              | Some entity_name \<Rightarrow>
                  (let ents = set_add entity_name ents;
                       tks = (case map_of (alias_to_ticker m) matched_text of
                                None \<Rightarrow> tks
                              | Some t \<Rightarrow> set_add t tks);
                       inds = (case map_of (entity_to_info m) entity_name of
                                 Some (CompanyInfo industry _ _) \<Rightarrow> set_add industry inds
                               | _ \<Rightarrow> inds)
                   in (tks, ents, inds))))"

definition find_matches ::
  "unicode_tables \<Rightarrow> matcher \<Rightarrow> ustring \<Rightarrow> ustring list \<times> ustring list \<times> ustring list" where
  "find_matches U m text =
     (if text = [] then ([], [], [])
      else
        (let text_lower = str_lower U text;
             acc = ([], [], []);
             acc = (case ticker_pattern m of
                      None \<Rightarrow> acc
                    | Some ts \<Rightarrow> foldl (ticker_hit U m) acc (ticker_finditer U ts text 0));
             acc = (case entity_pattern m of
                      None \<Rightarrow> acc
                    | Some alts \<Rightarrow>
                        foldl (entity_hit U m) acc (entity_finditer U alts text_lower 0))
         in acc))"

text \<open>The alias matches \<open>find_matches\<close> goes through, in order.\<close>

definition entity_matches :: "unicode_tables \<Rightarrow> matcher \<Rightarrow> ustring \<Rightarrow> ustring list" where
  "entity_matches U m text =
     (case entity_pattern m of
        None \<Rightarrow> []
      | Some alts \<Rightarrow> entity_finditer U alts (str_lower U text) 0)"



text \<open>Example catalogs.\<close>

definition company :: "string \<Rightarrow> string \<Rightarrow> string list \<Rightarrow> entry" where
  "company n t al =
     \<lparr>y_name = Some (ascii n), y_ticker = (if t = [] then None else Some (ascii t)),
      y_aliases = (if al = [] then None else Some (map ascii al)), y_entities = None\<rparr>"

definition nvidia_catalog :: catalog where
  "nvidia_catalog =
     \<lparr>entities = [(ascii ''ai'', \<lparr>listed = [company ''NVIDIA'' ''NVDA'' []], unlisted = []\<rparr>)],
      key_people = [], institutions = []\<rparr>"


definition lilly_catalog :: catalog where
  "lilly_catalog =
     \<lparr>entities =
        [(ascii ''pharma'',
          \<lparr>listed = [company ''Eli Lilly'' ''LLY'' [''Eli Lilly'', ''Lilly'']],
           unlisted = []\<rparr>)],
      key_people = [company ''Mr Eli'' [] []], institutions = []\<rparr>"


text \<open>The matcher of a catalog that loads.\<close>

definition loaded :: "py_error + matcher \<Rightarrow> matcher" where
  "loaded r = (case r of Inr m \<Rightarrow> m | Inl e \<Rightarrow> empty_matcher)"




text \<open>The aliases that \<open>_build_patterns\<close> compiles, in the order of the alternatives.\<close>

definition compiled_aliases :: "(ustring \<times> ustring) list \<Rightarrow> ustring list" where
  "compiled_aliases al = filter (\<lambda>alias. 2 \<le> length alias) (sort_reverse length (map fst al))"


text \<open>The matchers of the example catalogs.\<close>

definition lilly_alternatives :: "alternative list" where
  "lilly_alternatives =
     [\<lparr>literal = ascii ''eli lilly'', anchored = True\<rparr>,
      \<lparr>literal = ascii ''mr eli'', anchored = True\<rparr>,
      \<lparr>literal = ascii ''lilly'', anchored = True\<rparr>]"

definition lilly_matcher :: matcher where
  "lilly_matcher =
     \<lparr>ticker_to_info = [(ascii ''LLY'', ascii ''Eli Lilly'', ascii ''pharma'')],
      entity_to_info =
        [(ascii ''Eli Lilly'', CompanyInfo (ascii ''pharma'') (Some (ascii ''LLY'')) True),
         (ascii ''Mr Eli'', PersonInfo [])],
      alias_to_entity =
        [(ascii ''eli lilly'', ascii ''Eli Lilly''), (ascii ''lilly'', ascii ''Eli Lilly''),
         (ascii ''mr eli'', ascii ''Mr Eli'')],
      alias_to_ticker =
        [(ascii ''eli lilly'', ascii ''LLY''), (ascii ''lly'', ascii ''LLY''),
         (ascii ''lilly'', ascii ''LLY'')],
      industries = [ascii ''pharma''],
      entity_pattern = Some lilly_alternatives,
      ticker_pattern = Some [ascii ''LLY'']\<rparr>"


section \<open>Layered report (analyzers/pre\_market\_analyzer.py)\<close>

text \<open>
  The generation backend is a function from the prompt to the outcome of the call. The
  prompt templates are not part of the modelled sources, so a prompt is the stage and
  the values formatted into its template. An outcome is the text of the response, or
  \<open>Raised e\<close> for an exception with \<open>str(e) = e\<close> raised inside the \<open>try\<close> block of the
  stage, by the call or while the response is read.
\<close>

datatype json =
  JNull | JBool bool | JNumber rat | JString ustring | JArray "json list"
| JObject "(ustring \<times> json) list"

datatype prompt =
  HiddenPrompt ustring ustring ustring ustring ustring
| Layer01Prompt "(ustring \<times> json) list" ustring ustring ustring
| Layer23Prompt ustring ustring ustring
| Layer45Prompt ustring ustring ustring ustring ustring "json option"
| NewsSummaryPrompt ustring ustring

datatype outcome = Raised ustring | Text ustring

datatype stage = HiddenLayer | Layer01 | Layer23 | Layer45 | NewsSummary

fun stage_of :: "prompt \<Rightarrow> stage" where
  "stage_of (HiddenPrompt _ _ _ _ _) = HiddenLayer"
| "stage_of (Layer01Prompt _ _ _ _) = Layer01"
| "stage_of (Layer23Prompt _ _ _) = Layer23"
| "stage_of (Layer45Prompt _ _ _ _ _ _) = Layer45"
| "stage_of (NewsSummaryPrompt _ _) = NewsSummary"

text \<open>
  \<open>re.search\<close> of a literal under \<open>re.IGNORECASE\<close>: the first position where it matches.
  \<open>section_to_next\<close> is the match of \<open>MARKER.*?(?=NEXT|$)\<close> under \<open>re.DOTALL\<close>: from
  the first occurrence of the marker up to the first later position where the next
  marker starts or the text ends. \<open>section_to_end\<close> is the match of \<open>MARKER.*\<close>.
\<close>

definition re_search :: "unicode_tables \<Rightarrow> ustring \<Rightarrow> ustring \<Rightarrow> nat option" where
  "re_search U marker text = find (literal_at U marker text) [0..<Suc (length text)]"

definition section_to_next ::
  "unicode_tables \<Rightarrow> ustring \<Rightarrow> ustring \<Rightarrow> ustring \<Rightarrow> ustring option" where
  "section_to_next U marker next_marker text =
     (case re_search U marker text of
        None \<Rightarrow> None
      | Some i \<Rightarrow>
          (case find (\<lambda>j. literal_at U next_marker text j \<or> at_end text j)
                  [i + length marker..<Suc (length text)] of
             None \<Rightarrow> None
           | Some j \<Rightarrow> Some (take (j - i) (drop i text))))"

definition section_to_end :: "unicode_tables \<Rightarrow> ustring \<Rightarrow> ustring \<Rightarrow> ustring option" where
  "section_to_end U marker text =
     (case re_search U marker text of None \<Rightarrow> None | Some i \<Rightarrow> Some (drop i text))"

text \<open>\<open>text.split(sep, 1)\<close> when it gives two parts.\<close>

definition split_once :: "ustring \<Rightarrow> ustring \<Rightarrow> (ustring \<times> ustring) option" where
  "split_once sep text =
     (case find (\<lambda>i. starts_with sep (drop i text)) [0..<Suc (length text)] of
        None \<Rightarrow> None
      | Some i \<Rightarrow> Some (take i text, drop (i + length sep) text))"

text \<open>
  The statements between \<open>text = response.text\<close> and the \<open>return\<close> of the three stage
  functions, which differ in their two markers and the separator of the second attempt.
\<close>

definition split_layers ::
  "unicode_tables \<Rightarrow> ustring \<Rightarrow> ustring \<Rightarrow> ustring \<Rightarrow> ustring \<Rightarrow> ustring \<times> ustring" where
  "split_layers U marker_a marker_b sep text =
     (let layer_a = (case section_to_next U marker_a marker_b text of
                       Some g \<Rightarrow> strip g | None \<Rightarrow> []);
          layer_b = (case section_to_end U marker_b text of
                       Some g \<Rightarrow> strip g | None \<Rightarrow> [])
      in if layer_a = [] \<and> layer_b = [] then
           (case split_once sep text of
              Some (part0, part1) \<Rightarrow> (strip part0, sep @ strip part1)
            | None \<Rightarrow> (text, []))
         else (layer_a, layer_b))"

definition error_0_1 :: ustring where
  "error_0_1 =
     [0x751f, 0x6210, 0x20, 0x4c, 0x61, 0x79, 0x65, 0x72, 0x20, 0x30, 0x2d, 0x31, 0x20,
      0x6642, 0x767c, 0x751f, 0x932f, 0x8aa4, 0x3a, 0x20]"

definition error_2_3 :: ustring where
  "error_2_3 =
     [0x751f, 0x6210, 0x20, 0x4c, 0x61, 0x79, 0x65, 0x72, 0x20, 0x32, 0x2d, 0x33, 0x20,
      0x6642, 0x767c, 0x751f, 0x932f, 0x8aa4, 0x3a, 0x20]"

definition error_4_5 :: ustring where
  "error_4_5 =
     [0x751f, 0x6210, 0x20, 0x4c, 0x61, 0x79, 0x65, 0x72, 0x20, 0x34, 0x2d, 0x35, 0x20,
      0x6642, 0x767c, 0x751f, 0x932f, 0x8aa4, 0x3a, 0x20]"

definition error_news :: ustring where
  "error_news = [0x7121, 0x6cd5, 0x751f, 0x6210, 0x65b0, 0x805e, 0x6458, 0x8981, 0x3a, 0x20]"

text \<open>The dictionary of the hidden layer and its readers.\<close>

fun json_truthy :: "json \<Rightarrow> bool" where
  "json_truthy JNull = False"
| "json_truthy (JBool b) = b"
| "json_truthy (JNumber x) = (x \<noteq> 0)"
| "json_truthy (JString s) = (s \<noteq> [])"
| "json_truthy (JArray xs) = (xs \<noteq> [])"
| "json_truthy (JObject d) = (d \<noteq> [])"

definition dict_get :: "(ustring \<times> json) list \<Rightarrow> string \<Rightarrow> json \<Rightarrow> json" where
  "dict_get d key dflt = (case map_of d (ascii key) of None \<Rightarrow> dflt | Some v \<Rightarrow> v)"

text \<open>The text of a JSON string, for the note that \<open>process_hidden_layer\<close> stores.\<close>

definition json_text :: "json \<Rightarrow> ustring" where
  "json_text v = (case v of JString s \<Rightarrow> s | _ \<Rightarrow> [])"

text \<open>\<open>re.search(r'\{[\s\S]*\}', text)\<close>: from the first opening brace to the last
  closing brace behind it.\<close>

definition json_span :: "ustring \<Rightarrow> ustring option" where
  "json_span text =
     (let from_brace = dropWhile (\<lambda>c. c \<noteq> 123) text;
          braced = rev (dropWhile (\<lambda>c. c \<noteq> 125) (rev from_brace))
      in if braced = [] then None else Some braced)"

definition hidden_failure :: "prev_ref \<Rightarrow> ustring \<Rightarrow> (ustring \<times> json) list" where
  "hidden_failure yesterday_report message =
     [(ascii ''macro_changes'', JArray []), (ascii ''industry_changes'', JArray []),
      (ascii ''company_changes'', JArray []), (ascii ''filtered_noise'', JArray []),
      (ascii ''yesterday_unavailable'', JBool (\<not> available yesterday_report)),
      (ascii ''yesterday_note'', JString (fallback_note yesterday_report)),
      (ascii ''error'', JString message)]"

definition hidden_prompt :: "prev_ref \<Rightarrow> ustring \<Rightarrow> ustring \<Rightarrow> ustring \<Rightarrow> ustring \<Rightarrow> prompt" where
  "hidden_prompt yesterday_report news_data sec_data fda_data market_data =
     (let yesterday_content =
            (if \<not> available yesterday_report
             then [0x3010, 0x6628, 0x65e5, 0x5831, 0x544a, 0x4e0d, 0x53ef, 0x7528, 0x3011, 0xa] @
                  fallback_note yesterday_report
             else content yesterday_report)
      in HiddenPrompt
           (if yesterday_content \<noteq> [] then take 8000 yesterday_content
            else [0x7121, 0x6628, 0x65e5, 0x5831, 0x544a])
           (take 6000 news_data)
           (if sec_data \<noteq> [] then take 2000 sec_data
            else [0x7121, 0x20, 0x53, 0x45, 0x43, 0x20, 0x516c, 0x544a])
           (if fda_data \<noteq> [] then take 2000 fda_data
            else [0x7121, 0x20, 0x46, 0x44, 0x41, 0x20, 0x52d5, 0x614b])
           market_data)"

text \<open>
  \<open>process_hidden_layer\<close>. \<open>json_loads\<close> is \<open>json.loads\<close> on a text that starts with an
  opening brace: the parsed object, or the message of the error it raises.
\<close>

definition process_hidden_layer ::
  "(prompt \<Rightarrow> outcome) \<Rightarrow> (ustring \<Rightarrow> ustring + (ustring \<times> json) list) \<Rightarrow> prev_ref \<Rightarrow>
     ustring \<Rightarrow> ustring \<Rightarrow> ustring \<Rightarrow> ustring \<Rightarrow> (ustring \<times> json) list" where
  "process_hidden_layer backend json_loads yesterday_report news_data sec_data fda_data
     market_data =
     (case backend (hidden_prompt yesterday_report news_data sec_data fda_data market_data) of
        Raised e \<Rightarrow> hidden_failure yesterday_report e
      | Text response \<Rightarrow>
          (case json_span response of
             None \<Rightarrow>
               hidden_failure yesterday_report (ascii ''Failed to parse hidden layer output'')
           | Some braced \<Rightarrow>
               (case json_loads braced of
                  Inl e \<Rightarrow> hidden_failure yesterday_report e
                | Inr result \<Rightarrow>
                    AList.update (ascii ''yesterday_note'')
                      (JString (fallback_note yesterday_report))
                      (AList.update (ascii ''yesterday_unavailable'')
                         (JBool (\<not> available yesterday_report)) result))))"

definition layer_0_1_prompt :: "(ustring \<times> json) list \<Rightarrow> ustring \<Rightarrow> ustring \<Rightarrow> prompt" where
  "layer_0_1_prompt hidden_layer_output market_data news_data =
     (let yesterday_warning =
            (if json_truthy (dict_get hidden_layer_output ''yesterday_unavailable'' (JBool False))
             then [0xa, 0x2a, 0x2a, 0x6ce8, 0x610f, 0x2a, 0x2a, 0xff1a, 0x5728, 0x20, 0x4c, 0x61,
                   0x79, 0x65, 0x72, 0x20, 0x30, 0x20, 0x7684, 0x958b, 0x982d, 0x52a0, 0x5165,
                   0x4ee5, 0x4e0b, 0x8b66, 0x544a, 0xff1a, 0xa, 0x26a0, 0xfe0f, 0x20] @
                  json_text (dict_get hidden_layer_output ''yesterday_note''
                    (JString [0x6628, 0x65e5, 0x5831, 0x544a, 0x4e0d, 0x53ef, 0x7528])) @
                  [0xa]
             else [])
      in Layer01Prompt hidden_layer_output market_data (take 4000 news_data) yesterday_warning)"

definition generate_layer_0_1 ::
  "unicode_tables \<Rightarrow> (prompt \<Rightarrow> outcome) \<Rightarrow> (ustring \<times> json) list \<Rightarrow> ustring \<Rightarrow> ustring \<Rightarrow>
     ustring \<times> ustring" where
  "generate_layer_0_1 U backend hidden_layer_output market_data news_data =
     (case backend (layer_0_1_prompt hidden_layer_output market_data news_data) of
        Raised e \<Rightarrow> (error_0_1 @ e, [])
      | Text response \<Rightarrow>
          split_layers U (ascii ''### Layer 0'') (ascii ''### Layer 1'') (ascii ''Layer 1'')
            response)"

definition generate_layer_2_3 ::
  "unicode_tables \<Rightarrow> (prompt \<Rightarrow> outcome) \<Rightarrow> ustring \<Rightarrow> ustring \<Rightarrow> ustring \<Rightarrow> ustring \<times> ustring" where
  "generate_layer_2_3 U backend layer_0_content layer_1_content market_data =
     (case backend (Layer23Prompt layer_0_content layer_1_content market_data) of
        Raised e \<Rightarrow> (error_2_3 @ e, [])
      | Text response \<Rightarrow>
          split_layers U (ascii ''### Layer 2'') (ascii ''### Layer 3'') (ascii ''Layer 3'')
            response)"

definition layer_4_5_prompt ::
  "ustring \<Rightarrow> ustring \<Rightarrow> ustring \<Rightarrow> ustring \<Rightarrow> ustring \<Rightarrow> json \<Rightarrow> prompt" where
  "layer_4_5_prompt layer_0_content layer_1_content layer_2_content layer_3_content
     watchlist_data company_changes =
     Layer45Prompt layer_0_content layer_1_content layer_2_content layer_3_content
       (take 3000 watchlist_data)
       (if json_truthy company_changes then Some company_changes else None)"

definition generate_layer_4_5 ::
  "unicode_tables \<Rightarrow> (prompt \<Rightarrow> outcome) \<Rightarrow> ustring \<Rightarrow> ustring \<Rightarrow> ustring \<Rightarrow> ustring \<Rightarrow> ustring \<Rightarrow>
     json \<Rightarrow> ustring \<times> ustring" where
  "generate_layer_4_5 U backend layer_0_content layer_1_content layer_2_content
     layer_3_content watchlist_data company_changes =
     (case backend (layer_4_5_prompt layer_0_content layer_1_content layer_2_content
                      layer_3_content watchlist_data company_changes) of
        Raised e \<Rightarrow> (error_4_5 @ e, [])
      | Text response \<Rightarrow>
          split_layers U (ascii ''### Layer 4'') (ascii ''### Layer 5'') (ascii ''Layer 5'')
            response)"

definition generate_news_summary :: "(prompt \<Rightarrow> outcome) \<Rightarrow> ustring \<Rightarrow> ustring \<Rightarrow> ustring" where
  "generate_news_summary backend news_data market_data =
     (case backend (NewsSummaryPrompt (take 5000 news_data) market_data) of
        Raised e \<Rightarrow> error_news @ e
      | Text response \<Rightarrow> strip response)"

text \<open>
  \<open>generate_layered_report\<close>, from the formatted inputs on: \<open>news_data\<close>, \<open>market_data\<close>,
  \<open>watchlist_data\<close> and \<open>market_appendix\<close> are the strings its formatting helpers
  return, and \<open>extract_hashtags\<close> stands for \<open>extract_hashtags_from_report\<close> with the
  watchlist symbols. The second component lists the prompts sent to the backend, in
  order.
\<close>

record layered_report_result =
  layer_0 :: ustring
  layer_1 :: ustring
  layer_2 :: ustring
  layer_3 :: ustring
  layer_4 :: ustring
  layer_5 :: ustring
  news_summary :: ustring
  market_appendix :: ustring
  hidden_layer_output :: "(ustring \<times> json) list"
  extracted_tickers :: "ustring list"

definition generate_layered_report ::
  "unicode_tables \<Rightarrow> (prompt \<Rightarrow> outcome) \<Rightarrow> (ustring \<Rightarrow> ustring + (ustring \<times> json) list) \<Rightarrow>
     (ustring \<Rightarrow> ustring list) \<Rightarrow> prev_ref \<Rightarrow> ustring \<Rightarrow> ustring \<Rightarrow> ustring \<Rightarrow> ustring \<Rightarrow>
     ustring \<Rightarrow> ustring \<Rightarrow> layered_report_result \<times> prompt list" where
  "generate_layered_report U backend json_loads extract_hashtags yesterday_report news_data
     market_data watchlist_data appendix sec_summary fda_summary =
     (let hidden_output =
            process_hidden_layer backend json_loads yesterday_report news_data sec_summary
              fda_summary market_data;
          l01 = generate_layer_0_1 U backend hidden_output market_data news_data;
          l23 = generate_layer_2_3 U backend (fst l01) (snd l01) market_data;
          company_changes = dict_get hidden_output ''company_changes'' (JArray []);
          l45 = generate_layer_4_5 U backend (fst l01) (snd l01) (fst l23) (snd l23)
                  watchlist_data company_changes;
          summary_text = generate_news_summary backend news_data market_data
      in (\<lparr>layer_0 = fst l01, layer_1 = snd l01, layer_2 = fst l23, layer_3 = snd l23,
           layer_4 = fst l45, layer_5 = snd l45, news_summary = summary_text,
           market_appendix = appendix, hidden_layer_output = hidden_output,
           extracted_tickers = extract_hashtags (fst l45)\<rparr>,
          [hidden_prompt yesterday_report news_data sec_summary fda_summary market_data,
           layer_0_1_prompt hidden_output market_data news_data,
           Layer23Prompt (fst l01) (snd l01) market_data,
           layer_4_5_prompt (fst l01) (snd l01) (fst l23) (snd l23) watchlist_data
             company_changes,
           NewsSummaryPrompt (take 5000 news_data) market_data]))"

text \<open>Two runs: one with a backend that fails at every call, one with a backend that
  fails at the stage of layers 0 and 1 only.\<close>

definition all_fail_run :: "layered_report_result \<times> prompt list" where
  "all_fail_run =
     generate_layered_report ascii_tables (\<lambda>p. Raised (ascii ''boom''))
       (\<lambda>s. Inl (ascii ''no JSON'')) (\<lambda>s. []) unavailable_ref (ascii ''- [wire] headline'')
       (ascii ''VIX: 15.00'') [] [] [] []"

definition one_fail_backend :: "prompt \<Rightarrow> outcome" where
  "one_fail_backend p =
     (if stage_of p = Layer01 then Raised (ascii ''boom'')
      else Text (ascii ''### Layer 2 a ### Layer 3 b''))"

definition one_fail_run :: "layered_report_result \<times> prompt list" where
  "one_fail_run =
     generate_layered_report ascii_tables one_fail_backend
       (\<lambda>s. Inl (ascii ''no JSON'')) (\<lambda>s. []) unavailable_ref (ascii ''- [wire] headline'')
       (ascii ''VIX: 15.00'') [] [] [] []"
section \<open>Properties of the previous-trading-day computation\<close>

lemma weekday_minus: "weekday (d - k) = (weekday d - k) mod 7"
  unfolding weekday_def by (simp add: mod_diff_left_eq algebra_simps)

lemma weekday_cases:
  "weekday d = 0 \<or> weekday d = 1 \<or> weekday d = 2 \<or> weekday d = 3 \<or> weekday d = 4 \<or>
   weekday d = 5 \<or> weekday d = 6"
  unfolding weekday_def by presburger

lemma prev_loop_done: "\<not> db < off \<Longrightarrow> prev_loop d db off = Inr d"
  by (simp add: prev_loop.simps)

lemma prev_loop_step:
  "db < off \<Longrightarrow> 2 \<le> d \<Longrightarrow>
   prev_loop d db off = prev_loop (d - 1) (if weekday (d - 1) < 5 then db + 1 else db) off"
  by (subst prev_loop.simps) (simp add: minus_one_day_def)

lemma prev_loop_prior_business_day:
  assumes "db < off" "1 \<le> prior_business_day d"
  shows "prev_loop d db off = prev_loop (prior_business_day d) (Suc db) off"
proof -
  consider "weekday d = 0" | "weekday d = 6" | "weekday d \<noteq> 0 \<and> weekday d \<noteq> 6" by blast
  then show ?thesis
  proof cases
    case 1
    then have w: "\<not> weekday (d - 1) < 5" "\<not> weekday (d - 2) < 5" "weekday (d - 3) < 5"
      by (simp_all add: weekday_minus)
    from 1 assms have d: "4 \<le> d" by (simp add: prior_business_day_def)
    show ?thesis using 1 w d assms(1)
      by (simp add: prev_loop_step prior_business_day_def)
  next
    case 2
    then have w: "\<not> weekday (d - 1) < 5" "weekday (d - 2) < 5"
      by (simp_all add: weekday_minus)
    from 2 assms have d: "3 \<le> d" by (simp add: prior_business_day_def)
    show ?thesis using 2 w d assms(1)
      by (simp add: prev_loop_step prior_business_day_def)
  next
    case 3
    then have w: "weekday (d - 1) < 5"
      using weekday_cases [of d] by (auto simp: weekday_minus)
    from 3 assms have d: "2 \<le> d" by (simp add: prior_business_day_def)
    show ?thesis using 3 w d assms(1)
      by (simp add: prev_loop_step prior_business_day_def)
  qed
qed

lemma prev_loop_weekday:
  "prev_loop d db off = Inr p \<Longrightarrow> db < off \<Longrightarrow> weekday p < 5"
proof (induction d db off rule: prev_loop.induct)
  case (1 result days_back offset)
  from "1.prems" obtain r where r: "minus_one_day result = Inr r"
    by (subst (asm) prev_loop.simps) (auto split: sum.splits)
  let ?db = "if weekday r < 5 then days_back + 1 else days_back"
  from "1.prems" r have eq: "prev_loop r ?db offset = Inr p"
    by (subst (asm) prev_loop.simps) simp
  show ?case
  proof (cases "?db < offset")
    case True
    from "1.IH"[OF "1.prems"(2) r eq True] show ?thesis .
  next
    case False
    with eq have "p = r" by (simp add: prev_loop.simps)
    moreover from False "1.prems"(2) have "weekday r < 5" by (auto split: if_splits)
    ultimately show ?thesis by simp
  qed
qed

lemma prior_business_day_ge: "d - 3 \<le> prior_business_day d" "prior_business_day d < d" by (auto simp: prior_business_day_def)



lemma prev_1: "1 \<le> prior_business_day d \<Longrightarrow> get_previous_trading_day d 1 = Inr (prior_business_day d)"
  by (simp add: get_previous_trading_day_def prev_loop_prior_business_day prev_loop_done)

lemma prev_2:
  "1 \<le> prior_business_day (prior_business_day d) \<Longrightarrow> get_previous_trading_day d 2 = Inr (prior_business_day (prior_business_day d))"
  using prior_business_day_ge(2) [of "prior_business_day d"]
  by (simp add: get_previous_trading_day_def prev_loop_prior_business_day prev_loop_done)

lemma prev_3:
  "1 \<le> prior_business_day (prior_business_day (prior_business_day d)) \<Longrightarrow> get_previous_trading_day d 3 = Inr (prior_business_day (prior_business_day (prior_business_day d)))"
  using prior_business_day_ge(2) [of "prior_business_day d"] prior_business_day_ge(2) [of "prior_business_day (prior_business_day d)"]
  by (simp add: get_previous_trading_day_def prev_loop_prior_business_day prev_loop_done)


lemma lookback_trace_weekday:
  "\<forall>lb \<in> set lbs. 0 < lb \<Longrightarrow> t \<in> set (fst (lookback_loop fmt fetch cur lbs)) \<Longrightarrow> weekday t < 5"
proof (induction lbs)
  case Nil
  then show ?case by simp
next
  case (Cons lb lbs)
  show ?case
  proof (cases "get_previous_trading_day cur lb")
    case (Inl e)
    with Cons.prems show ?thesis by simp
  next
    case (Inr p)
    from Cons.prems(1) have "0 < lb" by simp
    with Inr have wp: "weekday p < 5"
      unfolding get_previous_trading_day_def by (rule prev_loop_weekday)
    from Cons.prems(2) Inr have "t = p \<or> t \<in> set (fst (lookback_loop fmt fetch cur lbs))"
      by (auto simp: Let_def split: if_splits prod.splits)
    with wp Cons.IH Cons.prems(1) show ?thesis by auto
  qed
qed

lemma lookback_trace_length:
  "length (fst (lookback_loop fmt fetch cur lbs)) \<le> length lbs"
  by (induction lbs) (auto simp: Let_def split: sum.splits prod.splits)

text \<open>
  Claim C7. Every date for which \<open>get_yesterday_pre_market\<close> queries the content store
  is a weekday (Monday to Friday), at most three dates are queried, and when the
  current date is a Monday (with the preceding Friday representable as a \<open>datetime\<close>)
  the first date queried is the preceding Friday, three days earlier.
\<close>
theorem attempted_dates_are_weekdays:
  "(\<forall>t \<in> set (fst (get_yesterday_pre_market fmt fetch cur)). weekday t < 5) \<and>
   length (fst (get_yesterday_pre_market fmt fetch cur)) \<le> 3 \<and>
   (weekday cur = 0 \<and> 4 \<le> cur \<longrightarrow>
      weekday (cur - 3) = 4 \<and>
      (\<exists>rest. fst (get_yesterday_pre_market fmt fetch cur) = (cur - 3) # rest))"
proof (intro conjI ballI impI)
  fix t assume "t \<in> set (fst (get_yesterday_pre_market fmt fetch cur))"
  then show "weekday t < 5"
    unfolding get_yesterday_pre_market_def
    by (rule lookback_trace_weekday [rotated]) simp
next
  show "length (fst (get_yesterday_pre_market fmt fetch cur)) \<le> 3"
    unfolding get_yesterday_pre_market_def
    using lookback_trace_length [of fmt fetch cur "[1, 2, 3]"] by simp
next
  assume a: "weekday cur = 0 \<and> 4 \<le> cur"
  then show "weekday (cur - 3) = 4" by (simp add: weekday_minus)
next
  assume a: "weekday cur = 0 \<and> 4 \<le> cur"
  then have "prior_business_day cur = cur - 3" by (simp add: prior_business_day_def)
  with a have "get_previous_trading_day cur 1 = Inr (cur - 3)"
    using prev_1 [of cur] by simp
  then show "\<exists>rest. fst (get_yesterday_pre_market fmt fetch cur) = (cur - 3) # rest"
    unfolding get_yesterday_pre_market_def
    by (auto simp: Let_def split: prod.splits)
qed

theorem attempted_dates_are_weekdays_witness:
  "weekday 739922 = 0 \<and> (4::int) \<le> 739922 \<and>
   fst (get_yesterday_pre_market demo_strftime (\<lambda>s. []) 739922) = [739919, 739918, 739917] \<and>
   weekday 739919 = 4 \<and> weekday 739918 < 5 \<and> weekday 739917 < 5"
proof -
  have h: "weekday 739922 = 0 \<and> (4::int) \<le> 739922" by (simp add: weekday_def)
  have p: "get_previous_trading_day 739922 (Suc 0) = Inr 739919"
    "get_previous_trading_day 739922 2 = Inr 739918"
    "get_previous_trading_day 739922 3 = Inr 739917"
    using prev_1 [of 739922] prev_2 [of 739922] prev_3 [of 739922]
    by (simp_all add: prior_business_day_def weekday_def)
  have tr: "fst (get_yesterday_pre_market demo_strftime (\<lambda>s. []) 739922) = [739919, 739918, 739917]"
    by (simp add: get_yesterday_pre_market_def p)
  from attempted_dates_are_weekdays [of demo_strftime "\<lambda>s. []" 739922] h tr
  show ?thesis by simp
qed




section \<open>Properties of the candidate ranking\<close>


















lemma set_sort_reverse: "set (sort_reverse key xs) = set xs"
  by (simp add: sort_reverse_def)








lemma set_alist_update:
  "p \<in> set (AList.update k v al) \<Longrightarrow> p = (k, v) \<or> p \<in> set al"
  by (induction al) (auto split: if_splits)

lemma count_mention_ok:
  assumes "entries_ok ws c" "ticker \<notin> ws"
  shows "entries_ok ws (count_mention u ttl ticker c)"
proof -
  have sym: "e_symbol (case map_of c ticker of Some e \<Rightarrow> e
        | None \<Rightarrow> \<lparr>e_symbol = ticker,
            e_name = (case map_of (ticker_to_name u) ticker of Some n \<Rightarrow> n | None \<Rightarrow> []),
            e_headlines = [], e_count = 0\<rparr>) = ticker"
    using assms(1) by (auto simp: entries_ok_def split: option.splits dest: map_of_SomeD)
  show ?thesis
    unfolding entries_ok_def
  proof (intro ballI, clarify)
    fix k e assume "(k, e) \<in> set (count_mention u ttl ticker c)"
    then consider "(k, e) \<in> set c" | "k = ticker" "e_symbol e = ticker"
      unfolding count_mention_def Let_def
      using sym by (auto dest!: set_alist_update split: if_splits)
    then show "e_symbol e = k \<and> k \<notin> ws"
      using assms by cases (auto simp: entries_ok_def)
  qed
qed

lemma matched_loop_ok:
  "entries_ok ws c \<Longrightarrow> entries_ok ws (matched_loop u ws ttl matched c)"
  by (induction matched arbitrary: c) (auto intro: count_mention_ok)

lemma items_loop_ok:
  "entries_ok ws c \<Longrightarrow> entries_ok ws (items_loop U u ws items c)"
  by (induction items arbitrary: c) (auto intro: matched_loop_ok)

lemma event_symbols_not_watchlist:
  "e \<in> set (fst (build_event_driven_candidates U news universe ws)) \<Longrightarrow> e_symbol e \<notin> ws"
proof -
  assume a: "e \<in> set (fst (build_event_driven_candidates U news universe ws))"
  have ok: "\<And>u. entries_ok ws (items_loop U u ws news [])"
    by (rule items_loop_ok) (simp add: entries_ok_def)
  from a obtain u k where "(k, e) \<in> set (items_loop U u ws news [])"
    by (auto simp: build_event_driven_candidates_def Let_def set_sort_reverse
          split: option.splits if_splits)
  with ok [of u] show ?thesis by (auto simp: entries_ok_def)
qed

text \<open>
  Claim C8. In one ranking call, no symbol of the watchlist candidates is a symbol of the
  event-driven candidates, whatever the stocks, news items, earnings events and
  universe are.
\<close>
theorem watchlist_and_event_symbols_disjoint:
  "set (map c_symbol (fst (ranking_call U stocks news earnings universe))) \<inter>
   set (map e_symbol (snd (ranking_call U stocks news earnings universe))) = {}"
proof -
  obtain wc ws where w: "build_watchlist_candidates stocks news earnings = (wc, ws)"
    by (cases "build_watchlist_candidates stocks news earnings")
  then have ws: "ws = set (map c_symbol wc)"
    by (auto simp: build_watchlist_candidates_def Let_def)
  obtain ec es where e: "build_event_driven_candidates U news universe ws = (ec, es)"
    by (cases "build_event_driven_candidates U news universe ws")
  have "\<And>x. x \<in> set ec \<Longrightarrow> e_symbol x \<notin> ws"
    using event_symbols_not_watchlist [of _ U news universe ws] e by simp
  then have "set (map c_symbol wc) \<inter> set (map e_symbol ec) = {}"
    unfolding ws by (auto simp: image_iff) metis
  with w e show ?thesis by (simp add: ranking_call_def)
qed


section \<open>Properties of the entity matcher\<close>















lemma nvidia_loaded:
  "load_entities ascii_tables nvidia_catalog =
   Inr \<lparr>ticker_to_info = [(ascii ''NVDA'', ascii ''NVIDIA'', ascii ''ai'')],
        entity_to_info = [(ascii ''NVIDIA'', CompanyInfo (ascii ''ai'') (Some (ascii ''NVDA'')) True)],
        alias_to_entity = [],
        alias_to_ticker = [(ascii ''nvidia'', ascii ''NVDA''), (ascii ''nvda'', ascii ''NVDA'')],
        industries = [ascii ''ai''],
        entity_pattern = None,
        ticker_pattern = Some [ascii ''NVDA'']\<rparr>"
  by (simp add: nvidia_catalog_def load_entities_def add_industry_def add_listed_def
        get_name_def get_or_def company_def Let_def empty_matcher_def set_add_def
        build_patterns_def sort_reverse_def ascii_tables_def ascii_def ascii_lower_def)

lemmas ticker_scan_simps =
  ticker_finditer.simps ticker_match_at_def ticker_from_def literal_at_def ticker_lead_def
  ticker_trail_def at_end_def py_isspace_def ascii_tables_def ascii_lower_def ascii_def Let_def

lemma nvda_ticker_scan:
  "ticker_finditer ascii_tables [ascii ''NVDA''] (ascii ''NVDA up'') 0 = [ascii ''NVDA'']"
  by (simp add: ticker_scan_simps)

lemma nvidia_ticker_scan:
  "ticker_finditer ascii_tables [ascii ''NVDA''] (ascii ''NVIDIA up'') 0 = []"
  by (simp add: ticker_scan_simps)

text \<open>
  Claim C1 at a catalog with one listed company, NVIDIA with ticker NVDA and no aliases.
  The company's lower-cased name and ticker are keys of \<open>alias_to_ticker\<close> and not of
  \<open>alias_to_entity\<close> (only the unlisted companies, the people and the institutions have
  their names indexed there), so a text naming the company resolves to nothing, while a
  text with its ticker resolves to the company.
\<close>
theorem listed_name_not_an_entity_alias:
  "map fst (alias_to_ticker (loaded (load_entities ascii_tables nvidia_catalog))) =
     [ascii ''nvidia'', ascii ''nvda''] \<and>
   map fst (alias_to_entity (loaded (load_entities ascii_tables nvidia_catalog))) = [] \<and>
   find_matches ascii_tables (loaded (load_entities ascii_tables nvidia_catalog))
     (ascii ''NVIDIA up'') = ([], [], []) \<and>
   find_matches ascii_tables (loaded (load_entities ascii_tables nvidia_catalog))
     (ascii ''NVDA up'') = ([ascii ''NVDA''], [ascii ''NVIDIA''], [ascii ''ai''])"
proof -
  have up: "str_upper ascii_tables (ascii ''NVDA'') = ascii ''NVDA''"
    by (simp add: ascii_tables_def ascii_def ascii_upper_def)
  have ne: "ascii ''NVIDIA up'' \<noteq> []" "ascii ''NVDA up'' \<noteq> []" by (simp_all add: ascii_def)
  show ?thesis
    by (simp add: nvidia_loaded loaded_def find_matches_def Let_def nvda_ticker_scan
          nvidia_ticker_scan ticker_hit_def up ne set_add_def)
qed



lemma load_entities_built:
  "load_entities U data = Inr m \<Longrightarrow> \<exists>m0. m = build_patterns m0"
  by (auto simp: load_entities_def split: sum.splits)

lemma build_patterns_fields [simp]:
  "alias_to_entity (build_patterns m) = alias_to_entity m"
  "alias_to_ticker (build_patterns m) = alias_to_ticker m"
  "ticker_to_info (build_patterns m) = ticker_to_info m"
  "entity_to_info (build_patterns m) = entity_to_info m"
  by (simp_all add: build_patterns_def Let_def)

lemma entity_pattern_build:
  "entity_pattern (build_patterns m) =
   (let alts = map (\<lambda>alias. \<lparr>literal = alias, anchored = \<not> has_cjk alias\<rparr>)
                 (compiled_aliases (alias_to_entity m))
    in if alts \<noteq> [] then Some alts else None)"
  by (simp add: build_patterns_def Let_def compiled_aliases_def)


lemma entity_pattern_alts:
  assumes "load_entities U data = Inr m" "entity_pattern m = Some alts"
  shows "alts = map (\<lambda>alias. \<lparr>literal = alias, anchored = \<not> has_cjk alias\<rparr>)
                  (compiled_aliases (alias_to_entity m))"
proof -
  from assms(1) obtain m0 where "m = build_patterns m0" by (auto dest: load_entities_built)
  with assms(2) show ?thesis
    by (auto simp: entity_pattern_build Let_def split: if_splits)
qed



lemma set_compiled_aliases:
  "set (compiled_aliases al) = {k \<in> fst ` set al. 2 \<le> length k}"
  by (auto simp: compiled_aliases_def set_sort_reverse)

lemma sorted_sort_reverse:
  "sorted_wrt (\<lambda>a b. key b \<le> key a) (sort_reverse key xs)"
proof -
  have "sorted (map key (sort_key key (rev xs)))" by simp
  then have "sorted_wrt (\<lambda>a b. key a \<le> key b) (sort_key key (rev xs))"
    by (simp add: sorted_map)
  then show ?thesis
    by (simp add: sort_reverse_def sorted_wrt_rev)
qed

lemma sorted_compiled_aliases:
  "sorted_wrt (\<lambda>a b. length b \<le> length a) (compiled_aliases al)"
  unfolding compiled_aliases_def by (intro sorted_wrt_filter sorted_sort_reverse)

lemma find_sorted_first:
  assumes "sorted_wrt R xs" "x \<in> set xs" "P x"
  shows "\<exists>a. find P xs = Some a \<and> (a = x \<or> R a x)"
  using assms
proof (induction xs)
  case Nil
  then show ?case by simp
next
  case (Cons y ys)
  show ?case
  proof (cases "P y")
    case True
    with Cons.prems show ?thesis by auto
  next
    case False
    with Cons.prems have "x \<in> set ys" by auto
    with Cons False show ?thesis by auto
  qed
qed












text \<open>
  Claim C2, as the code has it. The alternatives of the compiled entity pattern are the
  aliases of at least two code points in descending length, so at a position of the scan
  where an alias matches (with its anchors), the match reported there is an alias at
  least as long: never a shorter alias in place of a longer one that matches at the
  same position.
\<close>
theorem longest_matching_alias_wins_at_position:
  "load_entities U data = Inr m \<and> entity_pattern m = Some alts \<longrightarrow>
     sorted_wrt (\<lambda>a b. length (literal b) \<le> length (literal a)) alts \<and>
     literal ` set alts = {k \<in> fst ` set (alias_to_entity m). 2 \<le> length k} \<and>
     (\<forall>l \<in> set alts. i < length text \<and> alternative_at U text i l \<longrightarrow>
        (\<exists>a rest. find (alternative_at U text i) alts = Some a \<and>
           length (literal l) \<le> length (literal a) \<and>
           entity_finditer U alts text i = take (length (literal a)) (drop i text) # rest))"
proof (intro impI conjI ballI)
  assume a: "load_entities U data = Inr m \<and> entity_pattern m = Some alts"
  then have alts: "alts = map (\<lambda>alias. \<lparr>literal = alias, anchored = \<not> has_cjk alias\<rparr>)
      (compiled_aliases (alias_to_entity m))"
    using entity_pattern_alts by blast
  show s: "sorted_wrt (\<lambda>a b. length (literal b) \<le> length (literal a)) alts"
    unfolding alts using sorted_compiled_aliases [of "alias_to_entity m"]
    by (simp add: sorted_wrt_map)
  show "literal ` set alts = {k \<in> fst ` set (alias_to_entity m). 2 \<le> length k}"
    unfolding alts by (simp add: image_image set_compiled_aliases)
  fix l assume l: "l \<in> set alts" and m: "i < length text \<and> alternative_at U text i l"
  from find_sorted_first [OF s l, of "alternative_at U text i"] m
  obtain a where fa: "find (alternative_at U text i) alts = Some a"
    and "a = l \<or> length (literal l) \<le> length (literal a)" by blast
  then have "length (literal l) \<le> length (literal a)" by auto
  with fa m show "\<exists>a rest. find (alternative_at U text i) alts = Some a \<and>
           length (literal l) \<le> length (literal a) \<and>
           entity_finditer U alts text i = take (length (literal a)) (drop i text) # rest"
    by (subst entity_finditer.simps) simp
qed


text \<open>The example catalogs, loaded and scanned.\<close>

lemmas load_simps =
  load_entities_def add_industry_def add_listed_def add_unlisted_def add_person_def
  add_institution_def index_alias_def get_name_def get_or_def company_def Let_def
  empty_matcher_def set_add_def build_patterns_def sort_reverse_def has_cjk_def
  ascii_tables_def ascii_def ascii_lower_def

lemma lilly_loaded: "load_entities ascii_tables lilly_catalog = Inr lilly_matcher"
  by (simp add: lilly_catalog_def lilly_matcher_def lilly_alternatives_def load_simps)


lemmas entity_scan_simps =
  entity_finditer.simps alternative_at_def literal_at_def word_boundary_def is_word_def
  ascii_tables_def ascii_alnum_def ascii_lower_def ascii_def

lemma lilly_scan_plain:
  "entity_finditer ascii_tables lilly_alternatives (ascii ''eli lilly rises'') 0 =
   [ascii ''eli lilly'']"
  by (simp add: lilly_alternatives_def entity_scan_simps)

lemma lilly_scan_overlap:
  "entity_finditer ascii_tables lilly_alternatives (ascii ''mr eli lilly rises'') 0 =
   [ascii ''mr eli'', ascii ''lilly'']"
  by (simp add: lilly_alternatives_def entity_scan_simps)





theorem longest_matching_alias_wins_at_position_witness:
  "load_entities ascii_tables lilly_catalog = Inr lilly_matcher \<and>
   entity_pattern lilly_matcher = Some lilly_alternatives \<and>
   (0::nat) < length (ascii ''eli lilly rises'') \<and>
   alternative_at ascii_tables (ascii ''eli lilly rises'') 0
     \<lparr>literal = ascii ''eli lilly'', anchored = True\<rparr> \<and>
   alternative_at ascii_tables (ascii ''eli lilly rises'') 4
     \<lparr>literal = ascii ''lilly'', anchored = True\<rparr> \<and>
   (\<exists>a rest. find (alternative_at ascii_tables (ascii ''eli lilly rises'') 0) lilly_alternatives
        = Some a \<and> 9 \<le> length (literal a) \<and>
      entity_finditer ascii_tables lilly_alternatives (ascii ''eli lilly rises'') 0 =
        take (length (literal a)) (drop 0 (ascii ''eli lilly rises'')) # rest) \<and>
   entity_finditer ascii_tables lilly_alternatives (ascii ''eli lilly rises'') 0 =
     [ascii ''eli lilly'']"
proof -
  have h: "load_entities ascii_tables lilly_catalog = Inr lilly_matcher \<and>
      entity_pattern lilly_matcher = Some lilly_alternatives"
    by (simp add: lilly_loaded) (simp add: lilly_matcher_def)
  have l: "\<lparr>literal = ascii ''eli lilly'', anchored = True\<rparr> \<in> set lilly_alternatives"
    by (simp add: lilly_alternatives_def)
  have m: "0 < length (ascii ''eli lilly rises'') \<and>
      alternative_at ascii_tables (ascii ''eli lilly rises'') 0
        \<lparr>literal = ascii ''eli lilly'', anchored = True\<rparr>"
    by (simp add: entity_scan_simps)
  have m4: "alternative_at ascii_tables (ascii ''eli lilly rises'') 4
        \<lparr>literal = ascii ''lilly'', anchored = True\<rparr>"
    by (simp add: entity_scan_simps)
  have n: "length (literal \<lparr>literal = ascii ''eli lilly'', anchored = True\<rparr>) = 9"
    by (simp add: ascii_def)
  from longest_matching_alias_wins_at_position [of ascii_tables lilly_catalog lilly_matcher
      lilly_alternatives 0 "ascii ''eli lilly rises''"] h l m
  have "\<exists>a rest. find (alternative_at ascii_tables (ascii ''eli lilly rises'') 0)
        lilly_alternatives = Some a \<and>
      length (literal \<lparr>literal = ascii ''eli lilly'', anchored = True\<rparr>) \<le> length (literal a) \<and>
      entity_finditer ascii_tables lilly_alternatives (ascii ''eli lilly rises'') 0 =
        take (length (literal a)) (drop 0 (ascii ''eli lilly rises'')) # rest"
    by blast
  then have "\<exists>a rest. find (alternative_at ascii_tables (ascii ''eli lilly rises'') 0)
        lilly_alternatives = Some a \<and> 9 \<le> length (literal a) \<and>
      entity_finditer ascii_tables lilly_alternatives (ascii ''eli lilly rises'') 0 =
        take (length (literal a)) (drop 0 (ascii ''eli lilly rises'')) # rest"
    unfolding n .
  with h m m4 lilly_scan_plain show ?thesis by blast
qed

text \<open>
  Both \<open>eli lilly\<close> and its substring \<open>lilly\<close> are registered aliases, and the text
  contains \<open>Eli Lilly\<close>; the alias \<open>mr eli\<close> matches first and takes the \<open>Eli\<close>, so the
  longer alias is not matched and the shorter one is, inside the occurrence of the
  longer one.
\<close>

theorem overlapping_alias_counterexample:
  "load_entities ascii_tables lilly_catalog = Inr lilly_matcher \<and>
   map fst (alias_to_entity lilly_matcher) =
     [ascii ''eli lilly'', ascii ''lilly'', ascii ''mr eli''] \<and>
   contains (ascii ''lilly'') (ascii ''eli lilly'') \<and>
   contains (ascii ''eli lilly'') (str_lower ascii_tables (ascii ''Mr Eli Lilly rises'')) \<and>
   entity_matches ascii_tables lilly_matcher (ascii ''Mr Eli Lilly rises'') =
     [ascii ''mr eli'', ascii ''lilly'']"
proof -
  have lo: "str_lower ascii_tables (ascii ''Mr Eli Lilly rises'') = ascii ''mr eli lilly rises''"
    by (simp add: ascii_tables_def ascii_def ascii_lower_def)
  have c: "contains (ascii ''lilly'') (ascii ''eli lilly'')"
    "contains (ascii ''eli lilly'') (ascii ''mr eli lilly rises'')"
    by (simp_all add: ascii_def starts_with_def)
  have em: "entity_matches ascii_tables lilly_matcher (ascii ''Mr Eli Lilly rises'') =
     [ascii ''mr eli'', ascii ''lilly'']"
    by (simp add: entity_matches_def lilly_matcher_def lo lilly_scan_overlap)
  have al: "map fst (alias_to_entity lilly_matcher) =
     [ascii ''eli lilly'', ascii ''lilly'', ascii ''mr eli'']"
    by (simp add: lilly_matcher_def)
  from lilly_loaded al c lo em show ?thesis by simp
qed


section \<open>Properties of the layered report\<close>

lemma find_upt_None: "find P [0..<n] = None \<longleftrightarrow> (\<forall>i<n. \<not> P i)"
  by (auto simp: find_None_iff)

lemma contains_iff:
  "contains sub s \<longleftrightarrow> (\<exists>i\<le>length s. starts_with sub (drop i s))"
proof (induction s)
  case Nil
  then show ?case by (auto simp: starts_with_def)
next
  case (Cons x xs)
  have "(\<exists>i\<le>length (x # xs). starts_with sub (drop i (x # xs))) \<longleftrightarrow>
      starts_with sub (x # xs) \<or> (\<exists>i\<le>length xs. starts_with sub (drop i xs))"
  proof
    assume "\<exists>i\<le>length (x # xs). starts_with sub (drop i (x # xs))"
    then obtain i where i: "i \<le> length (x # xs)" "starts_with sub (drop i (x # xs))" by blast
    show "starts_with sub (x # xs) \<or> (\<exists>i\<le>length xs. starts_with sub (drop i xs))"
    proof (cases i)
      case 0
      with i show ?thesis by simp
    next
      case (Suc k)
      with i have "k \<le> length xs" "starts_with sub (drop k xs)" by simp_all
      then show ?thesis by blast
    qed
  next
    assume "starts_with sub (x # xs) \<or> (\<exists>i\<le>length xs. starts_with sub (drop i xs))"
    then show "\<exists>i\<le>length (x # xs). starts_with sub (drop i (x # xs))"
    proof
      assume "starts_with sub (x # xs)"
      then have "starts_with sub (drop 0 (x # xs))" by simp
      then show ?thesis by blast
    next
      assume "\<exists>i\<le>length xs. starts_with sub (drop i xs)"
      then obtain i where "i \<le> length xs" "starts_with sub (drop i xs)" by blast
      then have "Suc i \<le> length (x # xs)" "starts_with sub (drop (Suc i) (x # xs))" by simp_all
      then show ?thesis by blast
    qed
  qed
  with Cons show ?case by simp
qed

lemma split_once_None: "split_once sep s = None \<longleftrightarrow> \<not> contains sep s"
proof -
  have "split_once sep s = None \<longleftrightarrow>
      find (\<lambda>i. starts_with sep (drop i s)) [0..<Suc (length s)] = None"
    by (simp add: split_once_def split: option.splits)
  also have "\<dots> \<longleftrightarrow> (\<forall>i<Suc (length s). \<not> starts_with sep (drop i s))"
    by (rule find_upt_None)
  also have "\<dots> \<longleftrightarrow> \<not> contains sep s"
    by (simp add: contains_iff less_Suc_eq_le)
  finally show ?thesis .
qed

lemma split_layers_unmarked:
  assumes "re_search U marker_a s = None" "re_search U marker_b s = None"
    "\<not> contains sep s"
  shows "split_layers U marker_a marker_b sep s = (s, [])"
proof -
  from assms(3) have "split_once sep s = None" by (simp add: split_once_None)
  with assms(1,2) show ?thesis
    by (simp add: split_layers_def section_to_next_def section_to_end_def)
qed

text \<open>
  Claim C4, as the code has it. Splitting a response into its two sections is a total
  function of the text: it raises for no input. When neither marker matches anywhere in
  the text and the separator of the second attempt does not occur in it, the stage
  returns the pair of the entire raw text, unchanged, as the first section and the empty
  string as the second. The pair is all a stage returns: there is no flag beside it.
\<close>
theorem unmarked_text_is_first_section:
  "(re_search U marker_a raw = None \<and> re_search U marker_b raw = None \<and>
    \<not> contains sep raw \<longrightarrow> split_layers U marker_a marker_b sep raw = (raw, [])) \<and>
   (backend (layer_0_1_prompt hidden market_data news_data) = Text raw \<and>
    re_search U (ascii ''### Layer 0'') raw = None \<and>
    re_search U (ascii ''### Layer 1'') raw = None \<and> \<not> contains (ascii ''Layer 1'') raw \<longrightarrow>
      generate_layer_0_1 U backend hidden market_data news_data = (raw, [])) \<and>
   (backend (Layer23Prompt layer_0_content layer_1_content market_data) = Text raw \<and>
    re_search U (ascii ''### Layer 2'') raw = None \<and>
    re_search U (ascii ''### Layer 3'') raw = None \<and> \<not> contains (ascii ''Layer 3'') raw \<longrightarrow>
      generate_layer_2_3 U backend layer_0_content layer_1_content market_data = (raw, []))"
  by (simp add: split_layers_unmarked generate_layer_0_1_def generate_layer_2_3_def)

lemma plain_text_unmarked:
  "re_search ascii_tables (ascii ''### Layer 0'') (ascii ''plain text'') = None"
  "re_search ascii_tables (ascii ''### Layer 1'') (ascii ''plain text'') = None"
  "re_search ascii_tables (ascii ''### Layer 2'') (ascii ''plain text'') = None"
  "re_search ascii_tables (ascii ''### Layer 3'') (ascii ''plain text'') = None"
  "\<not> contains (ascii ''Layer 1'') (ascii ''plain text'')"
  "\<not> contains (ascii ''Layer 3'') (ascii ''plain text'')"
  by (simp_all add: re_search_def literal_at_def ascii_def starts_with_def upt_rec)

theorem unmarked_text_is_first_section_witness:
  "re_search ascii_tables (ascii ''### Layer 0'') (ascii ''plain text'') = None \<and>
   re_search ascii_tables (ascii ''### Layer 1'') (ascii ''plain text'') = None \<and>
   \<not> contains (ascii ''Layer 1'') (ascii ''plain text'') \<and>
   split_layers ascii_tables (ascii ''### Layer 0'') (ascii ''### Layer 1'') (ascii ''Layer 1'')
     (ascii ''plain text'') = (ascii ''plain text'', []) \<and>
   generate_layer_0_1 ascii_tables (\<lambda>p. Text (ascii ''plain text'')) [] [] [] =
     (ascii ''plain text'', []) \<and>
   generate_layer_2_3 ascii_tables (\<lambda>p. Text (ascii ''plain text'')) [] [] [] =
     (ascii ''plain text'', [])"
  using unmarked_text_is_first_section [of ascii_tables "ascii ''### Layer 0''"
      "ascii ''plain text''" "ascii ''### Layer 1''" "ascii ''Layer 1''"
      "\<lambda>p. Text (ascii ''plain text'')" "[]" "[]" "[]" "[]" "[]"]
    plain_text_unmarked
  by simp


text \<open>The stage result for a response without markers is a pair of two strings.\<close>

theorem unmarked_stage_result_counterexample:
  "generate_layer_2_3 ascii_tables (\<lambda>p. Text (ascii ''Market is calm.'')) [] [] [] =
   (ascii ''Market is calm.'', [])"
proof -
  have "re_search ascii_tables (ascii ''### Layer 2'') (ascii ''Market is calm.'') = None"
    "re_search ascii_tables (ascii ''### Layer 3'') (ascii ''Market is calm.'') = None"
    "\<not> contains (ascii ''Layer 3'') (ascii ''Market is calm.'')"
    by (simp_all add: re_search_def literal_at_def ascii_def starts_with_def upt_rec
          ascii_tables_def ascii_lower_def)
  then show ?thesis
    by (simp add: generate_layer_2_3_def split_layers_unmarked)
qed

lemma report_calls:
  "map stage_of (snd (generate_layered_report U backend json_loads extract_hashtags
      yesterday_report news_data market_data watchlist_data appendix sec_summary fda_summary)) =
   [HiddenLayer, Layer01, Layer23, Layer45, NewsSummary]"
  by (simp add: generate_layered_report_def Let_def hidden_prompt_def layer_0_1_prompt_def
        layer_4_5_prompt_def)

text \<open>
  Claim C5, as the code has it. Whatever the backend does, a run sends the prompts of all
  five stages in order and returns a report; each stage's output is its stage function
  applied to the outputs of the stages before it. When the call of a stage raises, the
  first section of that stage is the diagnostic string of the stage followed by the
  error's message and its second section is the empty string (for the hidden layer, the
  dictionary of empty lists with the message under \<open>error\<close>; for the news summary, the
  diagnostic string). No flag records the failure.
\<close>
theorem failed_stage_degrades_in_place:
  "(let run = generate_layered_report U backend json_loads extract_hashtags yesterday_report
              news_data market_data watchlist_data appendix sec_summary fda_summary;
        r = fst run; calls = snd run
    in map stage_of calls = [HiddenLayer, Layer01, Layer23, Layer45, NewsSummary] \<and>
       hidden_layer_output r =
         process_hidden_layer backend json_loads yesterday_report news_data sec_summary
           fda_summary market_data \<and>
       (layer_0 r, layer_1 r) =
         generate_layer_0_1 U backend (hidden_layer_output r) market_data news_data \<and>
       (layer_2 r, layer_3 r) =
         generate_layer_2_3 U backend (layer_0 r) (layer_1 r) market_data \<and>
       (layer_4 r, layer_5 r) =
         generate_layer_4_5 U backend (layer_0 r) (layer_1 r) (layer_2 r) (layer_3 r)
           watchlist_data (dict_get (hidden_layer_output r) ''company_changes'' (JArray [])) \<and>
       news_summary r = generate_news_summary backend news_data market_data \<and>
       (\<forall>e. backend (calls ! 0) = Raised e \<longrightarrow>
          hidden_layer_output r = hidden_failure yesterday_report e) \<and>
       (\<forall>e. backend (calls ! 1) = Raised e \<longrightarrow> layer_0 r = error_0_1 @ e \<and> layer_1 r = []) \<and>
       (\<forall>e. backend (calls ! 2) = Raised e \<longrightarrow> layer_2 r = error_2_3 @ e \<and> layer_3 r = []) \<and>
       (\<forall>e. backend (calls ! 3) = Raised e \<longrightarrow> layer_4 r = error_4_5 @ e \<and> layer_5 r = []) \<and>
       (\<forall>e. backend (calls ! 4) = Raised e \<longrightarrow> news_summary r = error_news @ e))"
  unfolding Let_def
proof (intro conjI allI impI)
  show "map stage_of (snd (generate_layered_report U backend json_loads extract_hashtags
      yesterday_report news_data market_data watchlist_data appendix sec_summary fda_summary)) =
   [HiddenLayer, Layer01, Layer23, Layer45, NewsSummary]"
    by (rule report_calls)
qed (simp_all add: generate_layered_report_def Let_def process_hidden_layer_def
       generate_layer_0_1_def generate_layer_2_3_def generate_layer_4_5_def
       generate_news_summary_def)


lemma one_fail_split:
  "split_layers ascii_tables (ascii ''### Layer 2'') (ascii ''### Layer 3'') (ascii ''Layer 3'')
     (ascii ''### Layer 2 a ### Layer 3 b'') = (ascii ''### Layer 2 a'', ascii ''### Layer 3 b'')"
  by (simp add: split_layers_def section_to_next_def section_to_end_def re_search_def
        literal_at_def at_end_def strip_def py_isspace_def ascii_def upt_rec ascii_tables_def
        ascii_lower_def)

theorem failed_stage_degrades_in_place_witness:
  "map stage_of (snd all_fail_run) = [HiddenLayer, Layer01, Layer23, Layer45, NewsSummary] \<and>
   hidden_layer_output (fst all_fail_run) = hidden_failure unavailable_ref (ascii ''boom'') \<and>
   layer_0 (fst all_fail_run) = error_0_1 @ ascii ''boom'' \<and> layer_1 (fst all_fail_run) = [] \<and>
   layer_2 (fst all_fail_run) = error_2_3 @ ascii ''boom'' \<and> layer_3 (fst all_fail_run) = [] \<and>
   layer_4 (fst all_fail_run) = error_4_5 @ ascii ''boom'' \<and> layer_5 (fst all_fail_run) = [] \<and>
   news_summary (fst all_fail_run) = error_news @ ascii ''boom'' \<and>
   one_fail_backend (snd one_fail_run ! 1) = Raised (ascii ''boom'') \<and>
   layer_0 (fst one_fail_run) = error_0_1 @ ascii ''boom'' \<and> layer_1 (fst one_fail_run) = [] \<and>
   layer_2 (fst one_fail_run) = ascii ''### Layer 2 a'' \<and>
   layer_3 (fst one_fail_run) = ascii ''### Layer 3 b''"
proof -
  note t = failed_stage_degrades_in_place [unfolded Let_def]
  note a = t [of ascii_tables "\<lambda>p. Raised (ascii ''boom'')" "\<lambda>s. Inl (ascii ''no JSON'')"
      "\<lambda>s. []" unavailable_ref "ascii ''- [wire] headline''" "ascii ''VIX: 15.00''" "[]" "[]"
      "[]" "[]", folded all_fail_run_def]
  note b = t [of ascii_tables one_fail_backend "\<lambda>s. Inl (ascii ''no JSON'')"
      "\<lambda>s. []" unavailable_ref "ascii ''- [wire] headline''" "ascii ''VIX: 15.00''" "[]" "[]"
      "[]" "[]", folded one_fail_run_def]
  have c: "one_fail_backend (snd one_fail_run ! 1) = Raised (ascii ''boom'')"
    by (simp add: one_fail_run_def generate_layered_report_def Let_def one_fail_backend_def
          layer_0_1_prompt_def)
  from b c have l01: "layer_0 (fst one_fail_run) = error_0_1 @ ascii ''boom''"
    "layer_1 (fst one_fail_run) = []" by blast+
  have "one_fail_backend (Layer23Prompt (layer_0 (fst one_fail_run)) (layer_1 (fst one_fail_run))
      (ascii ''VIX: 15.00'')) = Text (ascii ''### Layer 2 a ### Layer 3 b'')"
    by (simp add: one_fail_backend_def)
  with b have "(layer_2 (fst one_fail_run), layer_3 (fst one_fail_run)) =
      (ascii ''### Layer 2 a'', ascii ''### Layer 3 b'')"
    by (simp add: generate_layer_2_3_def one_fail_split)
  then have l23: "layer_2 (fst one_fail_run) = ascii ''### Layer 2 a''"
    "layer_3 (fst one_fail_run) = ascii ''### Layer 3 b''" by simp_all
  from a have "map stage_of (snd all_fail_run) =
      [HiddenLayer, Layer01, Layer23, Layer45, NewsSummary]"
    "hidden_layer_output (fst all_fail_run) = hidden_failure unavailable_ref (ascii ''boom'')"
    "layer_0 (fst all_fail_run) = error_0_1 @ ascii ''boom''" "layer_1 (fst all_fail_run) = []"
    "layer_2 (fst all_fail_run) = error_2_3 @ ascii ''boom''" "layer_3 (fst all_fail_run) = []"
    "layer_4 (fst all_fail_run) = error_4_5 @ ascii ''boom''" "layer_5 (fst all_fail_run) = []"
    "news_summary (fst all_fail_run) = error_news @ ascii ''boom''"
    by blast+
  with c l01 l23 show ?thesis by simp
qed

text \<open>The report of the run in which every call fails, in full.\<close>

theorem all_fail_report_counterexample:
  "fst all_fail_run =
   \<lparr>layer_0 = error_0_1 @ ascii ''boom'', layer_1 = [],
    layer_2 = error_2_3 @ ascii ''boom'', layer_3 = [],
    layer_4 = error_4_5 @ ascii ''boom'', layer_5 = [],
    news_summary = error_news @ ascii ''boom'', market_appendix = [],
    hidden_layer_output = hidden_failure unavailable_ref (ascii ''boom''),
    extracted_tickers = []\<rparr>"
  by (simp add: all_fail_run_def generate_layered_report_def Let_def process_hidden_layer_def
        generate_layer_0_1_def generate_layer_2_3_def generate_layer_4_5_def
        generate_news_summary_def)

end
